theory Spec2Isabelle
  imports Main "HOL-Library.Multiset"
begin

text \<open>
  A shallow embedding of the ward-management application's stores and helpers:
  \<open>useDischargeStore\<close> (\<open>fetchActivePatients\<close>, \<open>processDischarge\<close>), the submit
  handler of \<open>DischargeForm\<close>, \<open>usePatientStore\<close> (\<open>fetchPatients\<close>) and the stay
  duration helpers of \<open>utils/reportExport\<close>. Store actions take the storage and the
  store and return both; an awaited call that rejects is a value \<open>Inl err\<close>.
\<close>

section \<open>JavaScript values\<close>

text \<open>
  A thrown value is either an instance of \<open>Error\<close> with its message, or some other
  value (the storage client's error object), for which \<open>instanceof Error\<close> is false.
\<close>

datatype thrown = Error string | Other string

text \<open>\<open>a || b\<close> on optional strings: \<open>undefined\<close>, \<open>null\<close> and the empty string are falsy.\<close>

definition or_else :: "string option \<Rightarrow> string option \<Rightarrow> string option" where
  "or_else a b = (case a of None \<Rightarrow> b | Some s \<Rightarrow> if s = [] then b else Some s)"

text \<open>\<open>a || 'literal'\<close>: the same operator with a string on the right.\<close>

definition or_str :: "string option \<Rightarrow> string \<Rightarrow> string" where
  "or_str a d = (case a of None \<Rightarrow> d | Some s \<Rightarrow> if s = [] then d else s)"

text \<open>\<open>n || 0\<close> on optional numbers: \<open>null\<close> and \<open>0\<close> are falsy.\<close>

definition or_num :: "int option \<Rightarrow> int \<Rightarrow> int" where
  "or_num a d = (case a of None \<Rightarrow> d | Some n \<Rightarrow> if n = 0 then d else n)"

text \<open>\<open>rows || []\<close> on the data of a query.\<close>

definition or_empty :: "'a list option \<Rightarrow> 'a list" where
  "or_empty a = (case a of None \<Rightarrow> [] | Some rows \<Rightarrow> rows)"

text \<open>\<open>xs[0]\<close>, which is \<open>undefined\<close> on the empty array.\<close>

definition first :: "'a list \<Rightarrow> 'a option" where
  "first xs = (case xs of [] \<Rightarrow> None | x # _ \<Rightarrow> Some x)"

text \<open>\<open>error instanceof Error ? error.message : fallback\<close>, as the catch blocks have it.\<close>

definition message_of :: "string \<Rightarrow> thrown \<Rightarrow> string" where
  "message_of fallback err = (case err of Error m \<Rightarrow> m | Other _ \<Rightarrow> fallback)"

section \<open>Rows of the storage\<close>

text \<open>
  Rows are modelled as the \<open>select\<close> calls of the stores return them: the embedded
  relations (\<open>patient\<close>, \<open>admitting_doctor\<close>, \<open>discharge_doctor\<close>, a patient's
  \<open>admissions\<close>) are carried in the row, as arrays, the way the stores index them.
  Field names carry a prefix per row type (\<open>adm_\<close>, \<open>con_\<close>, \<open>pat_\<close>).
\<close>

record user_row =
  user_id :: int
  user_name :: string
  medical_code :: string
  role :: string
  user_department :: string

record patient_ref =
  ref_mrn :: string
  ref_name :: string

record admission_row =
  adm_id :: int
  adm_patient_id :: int
  adm_admitting_doctor_id :: int
  adm_admission_date :: string
  adm_discharge_date :: "string option"
  adm_department :: string
  adm_diagnosis :: string
  adm_status :: string
  adm_visit_number :: int
  adm_safety_type :: "string option"
  adm_shift_type :: string
  adm_is_weekend :: bool
  adm_discharge_type :: "string option"
  adm_follow_up_required :: bool
  adm_follow_up_date :: "string option"
  adm_discharge_note :: "string option"
  adm_discharge_doctor_id :: "int option"
  adm_patient :: "patient_ref list"
  adm_admitting_doctor :: "user_row list option"
  adm_discharge_doctor :: "user_row list option"

record consultation_row =
  con_id :: int
  con_patient_id :: int
  con_mrn :: string
  con_patient_name :: string
  con_created_at :: string
  con_consultation_specialty :: string
  con_reason :: string
  con_doctor_id :: "int option"
  con_doctor_name :: "string option"
  con_status :: string
  con_completion_note :: "string option"
  con_completed_by :: "int option"
  con_completed_at :: "string option"

record patient_row =
  pat_id :: int
  pat_mrn :: string
  pat_name :: string
  pat_date_of_birth :: string
  pat_gender :: string
  pat_admissions :: "admission_row list option"

section \<open>Requests to the storage\<close>

text \<open>The object passed to \<open>update\<close> on \<open>admissions\<close> by \<open>processDischarge\<close>.\<close>

record admission_update =
  au_status :: string
  au_discharge_date :: string
  au_discharge_type :: string
  au_follow_up_required :: bool
  au_follow_up_date :: "string option"
  au_discharge_note :: string
  au_discharge_doctor_id :: int

text \<open>The object passed to \<open>update\<close> on \<open>consultations\<close>.\<close>

record consultation_update =
  cu_status :: string
  cu_completion_note :: string
  cu_completed_by :: int
  cu_completed_at :: string

text \<open>The argument of \<open>addNote\<close>.\<close>

record note_args =
  note_patient_id :: int
  note_doctor_id :: int
  note_type :: string
  note_content :: string

text \<open>
  Every call the stores make on the storage client, with its arguments. The backend
  keeps the calls issued, in order, so that "no write was issued" and "the update came
  before the note" are statements about that list.
\<close>

datatype request =
    SelectActiveAdmissions
  | SelectActiveConsultations
  | SelectPatients "int option"
  | UpdateConsultation "int option" consultation_update
  | UpdateAdmission int admission_update
  | InsertNote note_args

text \<open>Writes are the updates and the note insert; the selects only read.\<close>

fun is_write :: "request \<Rightarrow> bool" where
  "is_write SelectActiveAdmissions = False"
| "is_write SelectActiveConsultations = False"
| "is_write (SelectPatients c) = False"
| "is_write (UpdateConsultation i u) = True"
| "is_write (UpdateAdmission i u) = True"
| "is_write (InsertNote n) = True"

record backend =
  admissions_table :: "admission_row list"
  consultations_table :: "consultation_row list"
  patients_table :: "patient_row list"
  medical_notes :: "note_args list"
  issued :: "request list"

text \<open>The calls that can come back with an error, for the environment to fail.\<close>

datatype call = QueryAdmissions | QueryConsultations | QueryPatients
  | WriteConsultation | WriteAdmission

text \<open>
  Modelled from the spec: \<open>useMedicalNotesStore.addNote\<close> is not among the sources.
  The spec has it append a note to the patient's note feed or fail (4.4, 7). What a
  failed insert does to the caller is left to the environment: the error is thrown on
  (\<open>Rejected\<close>), or caught inside \<open>addNote\<close> as the \<open>addNote\<close> of
  \<open>useLongStayNotesStore\<close> does (\<open>Swallowed\<close>).
\<close>

datatype note_outcome = Appended | Rejected thrown | Swallowed

text \<open>
  What a run depends on besides the stores and the storage: the user of
  \<open>useUserStore\<close>, which calls fail and with what, the outcome of \<open>addNote\<close>, the
  clock (\<open>new Date()\<close> as milliseconds and as ISO string), the value of
  \<open>new Date(s).getTime()\<close> for a string, \<open>None\<close> standing for \<open>NaN\<close>, and the
  host's local time zone adjustment \<open>LocalTZA(t, isUTC)\<close> of ECMAScript, in
  milliseconds: the offset of local time at the UTC instant \<open>t\<close> (\<open>isUTC\<close> true) or
  at the local time \<open>t\<close> (\<open>isUTC\<close> false).
\<close>

record env =
  currentUser :: "user_row option"
  faults :: "call \<Rightarrow> thrown option"
  addNote_outcome :: note_outcome
  now_ms :: int
  now_iso :: string
  getTime :: "string \<Rightarrow> int option"
  localTZA :: "int \<Rightarrow> bool \<Rightarrow> int"

definition issue :: "request \<Rightarrow> backend \<Rightarrow> backend" where
  "issue r db = db\<lparr>issued := issued db @ [r]\<rparr>"

section \<open>useDischargeStore\<close>

record ActivePatient =
  ap_id :: int
  ap_patient_id :: int
  ap_mrn :: string
  ap_name :: string
  ap_admission_date :: string
  ap_department :: string
  ap_doctor_name :: string
  ap_diagnosis :: string
  ap_status :: string
  ap_admitting_doctor_id :: int
  ap_shift_type :: string
  ap_is_weekend :: bool
  ap_isConsultation :: "bool option"
  ap_consultation_id :: "int option"

record DischargeStore =
  activePatients :: "ActivePatient list"
  loading :: bool
  error :: "string option"
  selectedPatient :: "ActivePatient option"

text \<open>
  The type \<open>DischargeData\<close> (\<open>types/discharge\<close>) is not among the sources; its fields
  are those \<open>handleSubmit\<close> builds and \<open>processDischarge\<close> reads.
\<close>

record DischargeData =
  discharge_date :: string
  discharge_type :: string
  follow_up_required :: bool
  follow_up_date :: "string option"
  discharge_note :: string
  dd_status :: string

subsection \<open>fetchActivePatients\<close>

text \<open>The two \<open>map\<close> callbacks of \<open>fetchActivePatients\<close>.\<close>

definition admissionPatient :: "admission_row \<Rightarrow> ActivePatient" where
  "admissionPatient admission = \<lparr>
     ap_id = adm_id admission,
     ap_patient_id = adm_patient_id admission,
     ap_mrn = or_str (map_option ref_mrn (first (adm_patient admission))) [],
     ap_name = or_str (map_option ref_name (first (adm_patient admission))) [],
     ap_admission_date = adm_admission_date admission,
     ap_department = adm_department admission,
     ap_doctor_name =
       or_str (map_option user_name (Option.bind (adm_admitting_doctor admission) first))
         ''Not assigned'',
     ap_diagnosis = adm_diagnosis admission,
     ap_status = adm_status admission,
     ap_admitting_doctor_id = adm_admitting_doctor_id admission,
     ap_shift_type = adm_shift_type admission,
     ap_is_weekend = adm_is_weekend admission,
     ap_isConsultation = None,
     ap_consultation_id = None \<rparr>"

definition consultationPatient :: "consultation_row \<Rightarrow> ActivePatient" where
  "consultationPatient consultation = \<lparr>
     ap_id = con_id consultation,
     ap_patient_id = con_patient_id consultation,
     ap_mrn = con_mrn consultation,
     ap_name = con_patient_name consultation,
     ap_admission_date = con_created_at consultation,
     ap_department = con_consultation_specialty consultation,
     ap_doctor_name = or_str (con_doctor_name consultation) ''Pending Assignment'',
     ap_diagnosis = con_reason consultation,
     ap_status = ''active'',
     ap_admitting_doctor_id = or_num (con_doctor_id consultation) 0,
     ap_shift_type = ''morning'',
     ap_is_weekend = False,
     ap_isConsultation = Some True,
     ap_consultation_id = Some (con_id consultation) \<rparr>"

text \<open>The rows \<open>.eq('status', 'active')\<close> selects, in the table's order.\<close>

definition active_admissions :: "backend \<Rightarrow> admission_row list" where
  "active_admissions db = filter (\<lambda>a. adm_status a = ''active'') (admissions_table db)"

definition active_consultations :: "backend \<Rightarrow> consultation_row list" where
  "active_consultations db = filter (\<lambda>c. con_status c = ''active'') (consultations_table db)"

text \<open>\<open>[...admissionPatients, ...consultationPatients]\<close> of the rows both queries returned.\<close>

definition allPatients :: "admission_row list option \<Rightarrow> consultation_row list option
    \<Rightarrow> ActivePatient list" where
  "allPatients admissionsData consultationsData =
     map admissionPatient (or_empty admissionsData)
     @ map consultationPatient (or_empty consultationsData)"

text \<open>The block "Update selected patient if it exists".\<close>

definition reconcile :: "ActivePatient list \<Rightarrow> DischargeStore \<Rightarrow> DischargeStore" where
  "reconcile ps st =
     (case selectedPatient st of
        None \<Rightarrow> st
      | Some sel \<Rightarrow>
          (case find (\<lambda>p. ap_id p = ap_id sel) ps of
             None \<Rightarrow> st\<lparr>selectedPatient := None\<rparr>
           | Some updatedPatient \<Rightarrow> st\<lparr>selectedPatient := Some updatedPatient\<rparr>))"

text \<open>The catch block of \<open>fetchActivePatients\<close>: the error is stored, never rethrown.\<close>

definition fetch_failed :: "thrown \<Rightarrow> DischargeStore \<Rightarrow> DischargeStore" where
  "fetch_failed err st = st\<lparr>error := Some (message_of ''An error occurred'' err), loading := False\<rparr>"

definition fetchActivePatients :: "env \<Rightarrow> backend \<times> DischargeStore \<Rightarrow> backend \<times> DischargeStore" where
  "fetchActivePatients e = (\<lambda>(db, st0).
     let st = st0\<lparr>loading := True, error := None\<rparr>;
         db1 = issue SelectActiveAdmissions db
     in case faults e QueryAdmissions of
          Some admissionsError \<Rightarrow> (db1, fetch_failed admissionsError st)
        | None \<Rightarrow>
            (let admissionsData = Some (active_admissions db1);
                 db2 = issue SelectActiveConsultations db1
             in (case faults e QueryConsultations of
                   Some consultationsError \<Rightarrow> (db2, fetch_failed consultationsError st)
                 | None \<Rightarrow>
                     (let consultationsData = Some (active_consultations db2);
                          ps = allPatients admissionsData consultationsData
                      in (db2, (reconcile ps st)\<lparr>activePatients := ps, loading := False\<rparr>)))))"

subsection \<open>processDischarge\<close>

text \<open>What \<open>update(...).eq('id', i)\<close> does to the rows of \<open>admissions\<close>.\<close>

definition apply_admission_update :: "int \<Rightarrow> admission_update \<Rightarrow> admission_row list
    \<Rightarrow> admission_row list" where
  "apply_admission_update i u rows =
     map (\<lambda>r. if adm_id r = i
               then r\<lparr>adm_status := au_status u,
                      adm_discharge_date := Some (au_discharge_date u),
                      adm_discharge_type := Some (au_discharge_type u),
                      adm_follow_up_required := au_follow_up_required u,
                      adm_follow_up_date := au_follow_up_date u,
                      adm_discharge_note := Some (au_discharge_note u),
                      adm_discharge_doctor_id := Some (au_discharge_doctor_id u)\<rparr>
               else r) rows"

text \<open>
  The same on \<open>consultations\<close>; \<open>consultation_id\<close> is optional in \<open>ActivePatient\<close>, and
  an absent one matches no row.
\<close>

definition apply_consultation_update :: "int option \<Rightarrow> consultation_update
    \<Rightarrow> consultation_row list \<Rightarrow> consultation_row list" where
  "apply_consultation_update i u rows =
     map (\<lambda>r. if Some (con_id r) = i
               then r\<lparr>con_status := cu_status u,
                      con_completion_note := Some (cu_completion_note u),
                      con_completed_by := Some (cu_completed_by u),
                      con_completed_at := Some (cu_completed_at u)\<rparr>
               else r) rows"

text \<open>
  \<open>await addNote(n)\<close>: the insert is issued; the note is in the feed when it went
  through, the error reaches the caller when it is thrown on.
\<close>

definition addNote :: "env \<Rightarrow> note_args \<Rightarrow> backend \<Rightarrow> (thrown + unit) \<times> backend" where
  "addNote e n db =
     (let db1 = issue (InsertNote n) db
      in case addNote_outcome e of
           Appended \<Rightarrow> (Inr (), db1\<lparr>medical_notes := medical_notes db1 @ [n]\<rparr>)
         | Rejected err \<Rightarrow> (Inl err, db1)
         | Swallowed \<Rightarrow> (Inr (), db1))"

text \<open>The branch "Complete consultation".\<close>

definition complete_consultation :: "env \<Rightarrow> DischargeData \<Rightarrow> ActivePatient \<Rightarrow> user_row
    \<Rightarrow> backend \<Rightarrow> (thrown + unit) \<times> backend" where
  "complete_consultation e data sel user db =
     (let u = \<lparr>cu_status = ''completed'',
                cu_completion_note = discharge_note data,
                cu_completed_by = user_id user,
                cu_completed_at = now_iso e\<rparr>;
          db1 = issue (UpdateConsultation (ap_consultation_id sel) u) db
      in case faults e WriteConsultation of
           Some consultationError \<Rightarrow> (Inl consultationError, db1)
         | None \<Rightarrow>
             addNote e
               \<lparr>note_patient_id = ap_patient_id sel,
                note_doctor_id = user_id user,
                note_type = ''Consultation Note'',
                note_content = discharge_note data\<rparr>
               (db1\<lparr>consultations_table :=
                  apply_consultation_update (ap_consultation_id sel) u (consultations_table db1)\<rparr>))"

text \<open>The branch "Process discharge for regular admission".\<close>

definition discharge_admission :: "env \<Rightarrow> DischargeData \<Rightarrow> ActivePatient \<Rightarrow> user_row
    \<Rightarrow> backend \<Rightarrow> (thrown + unit) \<times> backend" where
  "discharge_admission e data sel user db =
     (let u = \<lparr>au_status = ''discharged'',
                au_discharge_date = discharge_date data,
                au_discharge_type = discharge_type data,
                au_follow_up_required = follow_up_required data,
                au_follow_up_date = or_else (follow_up_date data) None,
                au_discharge_note = discharge_note data,
                au_discharge_doctor_id = user_id user\<rparr>;
          db1 = issue (UpdateAdmission (ap_id sel) u) db
      in case faults e WriteAdmission of
           Some updateError \<Rightarrow> (Inl updateError, db1)
         | None \<Rightarrow>
             addNote e
               \<lparr>note_patient_id = ap_patient_id sel,
                note_doctor_id = user_id user,
                note_type = ''Discharge Summary'',
                note_content = discharge_note data\<rparr>
               (db1\<lparr>admissions_table :=
                  apply_admission_update (ap_id sel) u (admissions_table db1)\<rparr>))"

text \<open>The catch block of \<open>processDischarge\<close>: the error is stored and rethrown.\<close>

definition discharge_failed :: "thrown \<Rightarrow> backend \<Rightarrow> DischargeStore
    \<Rightarrow> (thrown + unit) \<times> backend \<times> DischargeStore" where
  "discharge_failed err db st =
     (Inl err, db, st\<lparr>error := Some (message_of ''An error occurred'' err), loading := False\<rparr>)"

definition processDischarge :: "env \<Rightarrow> DischargeData \<Rightarrow> backend \<times> DischargeStore
    \<Rightarrow> (thrown + unit) \<times> backend \<times> DischargeStore" where
  "processDischarge e data = (\<lambda>(db, st0).
     let st = st0\<lparr>loading := True, error := None\<rparr>
     in case selectedPatient st of
          None \<Rightarrow> discharge_failed (Error ''No patient selected'') db st
        | Some sel \<Rightarrow>
            (case currentUser e of
               None \<Rightarrow> discharge_failed (Error ''No user logged in'') db st
             | Some user \<Rightarrow>
                 (case (if ap_isConsultation sel = Some True
                        then complete_consultation e data sel user db
                        else discharge_admission e data sel user db) of
                    (Inl err, db1) \<Rightarrow> discharge_failed err db1 st
                  | (Inr _, db1) \<Rightarrow>
                      (case fetchActivePatients e (db1, st) of
                         (db2, st2) \<Rightarrow>
                           (Inr (), db2, st2\<lparr>selectedPatient := None, loading := False\<rparr>)))))"

subsection \<open>DischargeForm: validateForm and handleSubmit\<close>

record FormData =
  fd_discharge_date :: string
  fd_discharge_type :: string
  fd_follow_up_required :: bool
  fd_follow_up_date :: string
  fd_discharge_note :: string

text \<open>The \<open>errors\<close> object of the form: a field is absent until an error is stored.\<close>

record form_errors =
  err_discharge_date :: "string option"
  err_follow_up_date :: "string option"
  err_discharge_note :: "string option"

text \<open>
  Strings are UTF-8. The white space \<open>String.prototype.trim\<close> removes: the code
  points of \<open>WhiteSpace\<close> and \<open>LineTerminator\<close> (U+0009 to U+000D, U+0020, U+00A0,
  U+1680, U+2000 to U+200A, U+2028, U+2029, U+202F, U+205F, U+3000, U+FEFF), each as
  its bytes.
\<close>

definition white_space :: "string list" where
  "white_space =
     [[CHR 0x09], [CHR 0x0A], [CHR 0x0B], [CHR 0x0C], [CHR 0x0D], [CHR 0x20],
      [CHR 0xC2, CHR 0xA0],
      [CHR 0xE1, CHR 0x9A, CHR 0x80],
      [CHR 0xE2, CHR 0x80, CHR 0x80], [CHR 0xE2, CHR 0x80, CHR 0x81],
      [CHR 0xE2, CHR 0x80, CHR 0x82], [CHR 0xE2, CHR 0x80, CHR 0x83],
      [CHR 0xE2, CHR 0x80, CHR 0x84], [CHR 0xE2, CHR 0x80, CHR 0x85],
      [CHR 0xE2, CHR 0x80, CHR 0x86], [CHR 0xE2, CHR 0x80, CHR 0x87],
      [CHR 0xE2, CHR 0x80, CHR 0x88], [CHR 0xE2, CHR 0x80, CHR 0x89],
      [CHR 0xE2, CHR 0x80, CHR 0x8A],
      [CHR 0xE2, CHR 0x80, CHR 0xA8], [CHR 0xE2, CHR 0x80, CHR 0xA9],
      [CHR 0xE2, CHR 0x80, CHR 0xAF],
      [CHR 0xE2, CHR 0x81, CHR 0x9F],
      [CHR 0xE3, CHR 0x80, CHR 0x80],
      [CHR 0xEF, CHR 0xBB, CHR 0xBF]]"

text \<open>Removing from the front of a string every leading occurrence of one of the words.\<close>

function strip :: "string list \<Rightarrow> string \<Rightarrow> string" where
  "strip ws s =
     (case find (\<lambda>w. w \<noteq> [] \<and> take (length w) s = w) ws of
        None \<Rightarrow> s
      | Some w \<Rightarrow> strip ws (drop (length w) s))"
  by pat_completeness auto
termination
proof (relation "measure (\<lambda>(ws, s). length s)")
  show "wf (measure (\<lambda>(ws, s). length s))" by simp
next
  fix ws :: "string list" and s w :: string
  assume "find (\<lambda>w. w \<noteq> [] \<and> take (length w) s = w) ws = Some w"
  then have "w \<noteq> []" and "take (length w) s = w"
    by (auto simp: find_Some_iff)
  then have "s \<noteq> []" by auto
  with \<open>w \<noteq> []\<close> show "((ws, drop (length w) s), (ws, s)) \<in> measure (\<lambda>(ws, s). length s)"
    by simp
qed

text \<open>\<open>s.trim()\<close>: the white space is removed at both ends.\<close>

definition trim :: "string \<Rightarrow> string" where
  "trim s = rev (strip (map rev white_space) (rev (strip white_space s)))"

text \<open>\<open>new Date(a) <= new Date(b)\<close>: false as soon as one side is an invalid date.\<close>

definition date_le :: "env \<Rightarrow> string \<Rightarrow> string \<Rightarrow> bool" where
  "date_le e a b =
     (case getTime e a of
        None \<Rightarrow> False
      | Some ta \<Rightarrow> (case getTime e b of None \<Rightarrow> False | Some tb \<Rightarrow> ta \<le> tb))"

definition validateForm :: "env \<Rightarrow> FormData \<Rightarrow> form_errors" where
  "validateForm e formData =
     (let errors0 = \<lparr>err_discharge_date = None, err_follow_up_date = None,
                      err_discharge_note = None\<rparr>;
          errors1 = (if fd_discharge_date formData = []
                     then errors0\<lparr>err_discharge_date := Some ''Discharge date is required''\<rparr>
                     else errors0);
          errors2 = (if fd_follow_up_required formData \<and> fd_follow_up_date formData = []
                     then errors1\<lparr>err_follow_up_date :=
                            Some ''Follow-up date is required when follow-up is enabled''\<rparr>
                     else errors1);
          errors3 = (if fd_follow_up_required formData
                        \<and> date_le e (fd_follow_up_date formData) (fd_discharge_date formData)
                     then errors2\<lparr>err_follow_up_date :=
                            Some ''Follow-up date must be after discharge date''\<rparr>
                     else errors2);
          errors4 = (if trim (fd_discharge_note formData) = []
                     then errors3\<lparr>err_discharge_note := Some ''Discharge note is required''\<rparr>
                     else errors3)
      in errors4)"

text \<open>\<open>Object.keys(errors).length === 0\<close>.\<close>

definition no_errors :: "form_errors \<Rightarrow> bool" where
  "no_errors errors = (err_discharge_date errors = None \<and> err_follow_up_date errors = None
     \<and> err_discharge_note errors = None)"

text \<open>The \<open>dischargeData\<close> object \<open>handleSubmit\<close> builds from the form.\<close>

definition dischargeData :: "FormData \<Rightarrow> DischargeData" where
  "dischargeData formData = \<lparr>
     discharge_date = fd_discharge_date formData,
     discharge_type = fd_discharge_type formData,
     follow_up_required = fd_follow_up_required formData,
     follow_up_date = (if fd_follow_up_required formData
                       then Some (fd_follow_up_date formData) else None),
     discharge_note = fd_discharge_note formData,
     dd_status = ''discharged'' \<rparr>"

text \<open>
  How a submission ends: stopped by the form with the errors it shows, gone through
  (\<open>goBack()\<close>), or failed with the message shown under the note field.
\<close>

datatype submission = Stopped form_errors | Done | Failed string

definition handleSubmit :: "env \<Rightarrow> FormData \<Rightarrow> backend \<times> DischargeStore
    \<Rightarrow> submission \<times> backend \<times> DischargeStore" where
  "handleSubmit e formData = (\<lambda>(db, st).
     if currentUser e = None
     then (Stopped \<lparr>err_discharge_date = None, err_follow_up_date = None,
             err_discharge_note = Some ''You must be logged in to process a discharge''\<rparr>, db, st)
     else if selectedPatient st = None
     then (Stopped \<lparr>err_discharge_date = None, err_follow_up_date = None,
             err_discharge_note = Some ''Please select a patient''\<rparr>, db, st)
     else if \<not> no_errors (validateForm e formData)
     then (Stopped (validateForm e formData), db, st)
     else (case processDischarge e (dischargeData formData) (db, st) of
             (Inl err, db1, st1) \<Rightarrow> (Failed (message_of ''Error processing discharge'' err), db1, st1)
           | (Inr _, db1, st1) \<Rightarrow> (Done, db1, st1)))"

section \<open>usePatientStore\<close>

text \<open>An admission as the aggregator keeps it in a patient: the doctors are \<open>rows?.[0]\<close>.\<close>

record patient_admission =
  pa_id :: int
  pa_patient_id :: int
  pa_admitting_doctor_id :: int
  pa_admission_date :: string
  pa_discharge_date :: "string option"
  pa_department :: string
  pa_diagnosis :: string
  pa_status :: string
  pa_visit_number :: int
  pa_safety_type :: "string option"
  pa_shift_type :: string
  pa_is_weekend :: bool
  pa_admitting_doctor :: "user_row option"
  pa_discharge_doctor :: "user_row option"

record Patient =
  pt_id :: int
  pt_mrn :: string
  pt_name :: string
  pt_date_of_birth :: string
  pt_gender :: string
  pt_department :: "string option"
  pt_doctor_name :: "string option"
  pt_diagnosis :: "string option"
  pt_admission_date :: "string option"
  pt_admissions :: "patient_admission list option"

record PatientStore =
  patients :: "Patient list"
  ps_selectedPatient :: "Patient option"
  ps_loading :: bool
  ps_error :: "string option"

subsection \<open>Sorting the admissions\<close>

text \<open>
  The comparator \<open>(a, b) => new Date(b.admission_date).getTime() -
  new Date(a.admission_date).getTime()\<close>; \<open>None\<close> is \<open>NaN\<close>.
\<close>

definition compare_admissions :: "env \<Rightarrow> admission_row \<Rightarrow> admission_row \<Rightarrow> int option" where
  "compare_admissions e a b =
     (case getTime e (adm_admission_date b) of
        None \<Rightarrow> None
      | Some tb \<Rightarrow>
          (case getTime e (adm_admission_date a) of None \<Rightarrow> None | Some ta \<Rightarrow> Some (tb - ta)))"

text \<open>
  \<open>Array.prototype.sort\<close> with a comparator is stable and reads a \<open>NaN\<close> as \<open>+0\<close>.
  It is modelled by stable insertion: an element goes before the first one it does not
  compare greater than. With a consistent comparator (every date valid) every conforming
  sort returns this list.
\<close>

fun insert_sorted :: "('a \<Rightarrow> 'a \<Rightarrow> int option) \<Rightarrow> 'a \<Rightarrow> 'a list \<Rightarrow> 'a list" where
  "insert_sorted cmp x [] = [x]"
| "insert_sorted cmp x (y # ys) =
     (if (case cmp x y of None \<Rightarrow> True | Some v \<Rightarrow> v \<le> 0)
      then x # y # ys
      else y # insert_sorted cmp x ys)"

definition sort_with :: "('a \<Rightarrow> 'a \<Rightarrow> int option) \<Rightarrow> 'a list \<Rightarrow> 'a list" where
  "sort_with cmp xs = foldr (insert_sorted cmp) xs []"

subsection \<open>fetchPatients\<close>

text \<open>The inner \<open>map\<close> callback: the fields kept of an admission.\<close>

definition admission_details :: "admission_row \<Rightarrow> patient_admission" where
  "admission_details admission = \<lparr>
     pa_id = adm_id admission,
     pa_patient_id = adm_patient_id admission,
     pa_admitting_doctor_id = adm_admitting_doctor_id admission,
     pa_admission_date = adm_admission_date admission,
     pa_discharge_date = adm_discharge_date admission,
     pa_department = adm_department admission,
     pa_diagnosis = adm_diagnosis admission,
     pa_status = adm_status admission,
     pa_visit_number = adm_visit_number admission,
     pa_safety_type = adm_safety_type admission,
     pa_shift_type = adm_shift_type admission,
     pa_is_weekend = adm_is_weekend admission,
     pa_admitting_doctor = Option.bind (adm_admitting_doctor admission) first,
     pa_discharge_doctor = Option.bind (adm_discharge_doctor admission) first \<rparr>"

text \<open>\<open>admission?.admitting_doctor?.name\<close>.\<close>

definition doctor_name_of :: "patient_admission option \<Rightarrow> string option" where
  "doctor_name_of a = map_option user_name (Option.bind a pa_admitting_doctor)"

text \<open>The outer \<open>map\<close> callback: a patient with its sorted admissions and derived fields.\<close>

definition patientWithDetails :: "env \<Rightarrow> patient_row \<Rightarrow> Patient" where
  "patientWithDetails e patient =
     (let admissions = map admission_details
            (sort_with (compare_admissions e) (or_empty (pat_admissions patient)));
          activeAdmission = find (\<lambda>a. pa_status a = ''active'') admissions;
          latestAdmission = first admissions
      in \<lparr>pt_id = pat_id patient,
          pt_mrn = pat_mrn patient,
          pt_name = pat_name patient,
          pt_date_of_birth = pat_date_of_birth patient,
          pt_gender = pat_gender patient,
          pt_department = or_else (map_option pa_department activeAdmission)
                            (map_option pa_department latestAdmission),
          pt_doctor_name = or_else (doctor_name_of activeAdmission) (doctor_name_of latestAdmission),
          pt_diagnosis = or_else (map_option pa_diagnosis activeAdmission)
                           (map_option pa_diagnosis latestAdmission),
          pt_admission_date = or_else (map_option pa_admission_date activeAdmission)
                                (map_option pa_admission_date latestAdmission),
          pt_admissions = Some admissions\<rparr>)"

text \<open>
  The filter of the default view, \<open>status.eq.active,and(status.eq.discharged,
  discharge_date.gte.cutoff)\<close>, on one admission. A missing or invalid discharge date is
  not \<open>gte\<close> anything.
\<close>

definition in_window :: "env \<Rightarrow> int \<Rightarrow> admission_row \<Rightarrow> bool" where
  "in_window e cutoff a =
     (adm_status a = ''active''
      \<or> (adm_status a = ''discharged''
          \<and> (case Option.bind (adm_discharge_date a) (getTime e) of
                None \<Rightarrow> False
              | Some t \<Rightarrow> cutoff \<le> t)))"

text \<open>
  Modelled from the spec: how the storage service evaluates the query that
  \<open>fetchPatients\<close> builds is not among the sources. With the filter given on the
  foreign table \<open>admissions\<close> and \<open>.not('admissions', 'is', null)\<close>, the embedded
  admissions are those the filter keeps, and a patient is returned when at least one is
  kept (spec 4.2: patients having at least one admission that is active or discharged
  within the window). Without a filter every patient is returned with all its admissions.
\<close>

definition select_patients :: "env \<Rightarrow> int option \<Rightarrow> backend \<Rightarrow> patient_row list" where
  "select_patients e flt db =
     (case flt of
        None \<Rightarrow> patients_table db
      | Some cutoff \<Rightarrow>
          filter (\<lambda>p. or_empty (pat_admissions p) \<noteq> [])
            (map (\<lambda>p. p\<lparr>pat_admissions := map_option (filter (in_window e cutoff)) (pat_admissions p)\<rparr>)
               (patients_table db)))"

text \<open>
  \<open>LocalTime(t)\<close> and \<open>UTC(t)\<close> of ECMAScript, which the local-time accessors of
  \<open>Date\<close> go through.
\<close>

definition LocalTime :: "env \<Rightarrow> int \<Rightarrow> int" where
  "LocalTime e t = t + localTZA e t True"

definition UTC :: "env \<Rightarrow> int \<Rightarrow> int" where
  "UTC e t = t - localTZA e t False"

text \<open>
  \<open>const cutoffTime = new Date(); cutoffTime.setHours(cutoffTime.getHours() - 18)\<close>:
  \<open>setHours\<close> replaces the hour of the local time by the hour minus 18 (the hour field
  may be negative: it is arithmetic on the local time value, 3600000 ms each) and
  converts the result back.
\<close>

definition cutoffTime :: "env \<Rightarrow> int" where
  "cutoffTime e = UTC e (LocalTime e (now_ms e) - 18 * 3600000)"

text \<open>The block after \<open>set({ patients })\<close>: the selection is replaced when found.\<close>

definition reselect :: "Patient list \<Rightarrow> PatientStore \<Rightarrow> PatientStore" where
  "reselect ps st =
     (case ps_selectedPatient st of
        None \<Rightarrow> st
      | Some sel \<Rightarrow>
          (case find (\<lambda>p. pt_id p = pt_id sel) ps of
             None \<Rightarrow> st
           | Some updatedPatient \<Rightarrow> st\<lparr>ps_selectedPatient := Some updatedPatient\<rparr>))"

definition fetchPatients :: "env \<Rightarrow> bool \<Rightarrow> backend \<times> PatientStore \<Rightarrow> backend \<times> PatientStore" where
  "fetchPatients e includeAllDischarged = (\<lambda>(db, st0).
     let st = st0\<lparr>ps_loading := True, ps_error := None\<rparr>;
         flt = (if \<not> includeAllDischarged then Some (cutoffTime e) else None);
         db1 = issue (SelectPatients flt) db
     in case faults e QueryPatients of
          Some err \<Rightarrow>
            (db1, st\<lparr>ps_error := Some (message_of ''Failed to fetch patients'' err),
                     ps_loading := False\<rparr>)
        | None \<Rightarrow>
            let data = Some (select_patients e flt db1);
                patientsWithDetails = or_empty (map_option (map (patientWithDetails e)) data);
                st1 = st\<lparr>patients := patientsWithDetails\<rparr>
            in (db1, (reselect patientsWithDetails st1)\<lparr>ps_loading := False\<rparr>))"

section \<open>Stay duration (utils/reportExport)\<close>

text \<open>
  Modelled from the spec: \<open>differenceInDays\<close> is imported from the \<open>date-fns\<close>
  package, which is not among the sources. The spec (4.1, 8) has it the whole-day
  difference \<open>floor(now - d)\<close>; a day is 86400000 ms, dates are milliseconds.
\<close>

definition differenceInDays :: "int \<Rightarrow> int \<Rightarrow> int" where
  "differenceInDays dateLeft dateRight = (dateLeft - dateRight) div 86400000"

definition LONG_STAY_THRESHOLD :: int where
  "LONG_STAY_THRESHOLD = 6"

text \<open>\<open>None\<close> is the \<open>NaN\<close> an invalid date gives.\<close>

definition calculateStayDuration :: "env \<Rightarrow> string \<Rightarrow> int option" where
  "calculateStayDuration e admissionDate =
     (case getTime e admissionDate of
        None \<Rightarrow> None
      | Some admissionDateTime \<Rightarrow> Some (differenceInDays (now_ms e) admissionDateTime))"

text \<open>\<open>stayDuration >= LONG_STAY_THRESHOLD\<close>, false on \<open>NaN\<close>.\<close>

definition isLongStay :: "env \<Rightarrow> string \<Rightarrow> bool" where
  "isLongStay e admissionDate =
     (case calculateStayDuration e admissionDate of
        None \<Rightarrow> False
      | Some stayDuration \<Rightarrow> stayDuration \<ge> LONG_STAY_THRESHOLD)"

section \<open>Sample data\<close>

text \<open>
  The scenario of the spec (8): patient A100, admitted 2024-01-01 to Neurology, active;
  the discharge is processed on 2024-01-10 with a follow-up on 2024-01-20 and the note
  "stable". Dates are given their UTC milliseconds; local time is three hours ahead of
  UTC all year.
\<close>

definition sample_getTime :: "string \<Rightarrow> int option" where
  "sample_getTime s =
     (if s = ''2024-01-01'' then Some 1704067200000
      else if s = ''2024-01-05'' then Some 1704412800000
      else if s = ''2024-01-09T05:30:00Z'' then Some 1704778200000
      else if s = ''2024-01-10'' then Some 1704844800000
      else if s = ''2024-01-20'' then Some 1705708800000
      else None)"

definition sample_doctor :: user_row where
  "sample_doctor = \<lparr>user_id = 7, user_name = ''Dr Amal'', medical_code = ''MC7'',
     role = ''doctor'', user_department = ''Neurology''\<rparr>"

definition sample_env :: env where
  "sample_env = \<lparr>currentUser = Some sample_doctor, faults = (\<lambda>c. None),
     addNote_outcome = Appended, now_ms = 1704844800000,
     now_iso = ''2024-01-10T00:00:00.000Z'', getTime = sample_getTime,
     localTZA = (\<lambda>t isUTC. 10800000)\<rparr>"

definition sample_admission :: admission_row where
  "sample_admission = \<lparr>adm_id = 1, adm_patient_id = 10, adm_admitting_doctor_id = 7,
     adm_admission_date = ''2024-01-01'', adm_discharge_date = None,
     adm_department = ''Neurology'', adm_diagnosis = ''Stroke'', adm_status = ''active'',
     adm_visit_number = 2, adm_safety_type = None, adm_shift_type = ''morning'',
     adm_is_weekend = False, adm_discharge_type = None, adm_follow_up_required = False,
     adm_follow_up_date = None, adm_discharge_note = None, adm_discharge_doctor_id = None,
     adm_patient = [\<lparr>ref_mrn = ''A100'', ref_name = ''Patient A''\<rparr>],
     adm_admitting_doctor = None, adm_discharge_doctor = None\<rparr>"

text \<open>A later visit of the same patient, discharged, with its admitting doctor.\<close>

definition sample_discharged :: admission_row where
  "sample_discharged = sample_admission\<lparr>adm_id := 2, adm_admission_date := ''2024-01-05'',
     adm_discharge_date := Some ''2024-01-10'', adm_department := ''Cardiology'',
     adm_status := ''discharged'', adm_visit_number := 3,
     adm_admitting_doctor := Some [sample_doctor]\<rparr>"

text \<open>An active consultation whose id is that of the admission above.\<close>

definition sample_consultation :: consultation_row where
  "sample_consultation = \<lparr>con_id = 1, con_patient_id = 11, con_mrn = ''B200'',
     con_patient_name = ''Patient B'', con_created_at = ''2024-01-05'',
     con_consultation_specialty = ''Cardiology'', con_reason = ''Chest pain'',
     con_doctor_id = None, con_doctor_name = None, con_status = ''active'',
     con_completion_note = None, con_completed_by = None, con_completed_at = None\<rparr>"

definition sample_patient :: patient_row where
  "sample_patient = \<lparr>pat_id = 10, pat_mrn = ''A100'', pat_name = ''Patient A'',
     pat_date_of_birth = ''1960-05-05'', pat_gender = ''female'',
     pat_admissions = Some [sample_admission, sample_discharged]\<rparr>"

text \<open>
  Three more patients, each with one discharged admission: discharged five days before
  the clock, ten days after the clock, and eighteen and a half hours before the clock.
\<close>

definition sample_long_gone :: patient_row where
  "sample_long_gone = \<lparr>pat_id = 30, pat_mrn = ''C300'', pat_name = ''Patient C'',
     pat_date_of_birth = ''1970-03-03'', pat_gender = ''male'',
     pat_admissions = Some [sample_discharged\<lparr>adm_id := 3, adm_patient_id := 30,
       adm_admission_date := ''2024-01-01'', adm_discharge_date := Some ''2024-01-05''\<rparr>]\<rparr>"

definition sample_future :: patient_row where
  "sample_future = \<lparr>pat_id = 20, pat_mrn = ''D400'', pat_name = ''Patient D'',
     pat_date_of_birth = ''1980-04-04'', pat_gender = ''female'',
     pat_admissions = Some [sample_discharged\<lparr>adm_id := 4, adm_patient_id := 20,
       adm_discharge_date := Some ''2024-01-20''\<rparr>]\<rparr>"

definition sample_early :: patient_row where
  "sample_early = \<lparr>pat_id = 40, pat_mrn = ''E500'', pat_name = ''Patient E'',
     pat_date_of_birth = ''1990-05-05'', pat_gender = ''male'',
     pat_admissions = Some [sample_discharged\<lparr>adm_id := 5, adm_patient_id := 40,
       adm_discharge_date := Some ''2024-01-09T05:30:00Z''\<rparr>]\<rparr>"

definition sample_window_db :: backend where
  "sample_window_db = \<lparr>admissions_table = [], consultations_table = [],
     patients_table = [sample_patient, sample_long_gone, sample_future, sample_early],
     medical_notes = [], issued = []\<rparr>"

text \<open>
  A host whose clocks went back one hour ten hours before the clock: local time was two
  hours ahead of UTC before that instant and is one hour ahead since.
\<close>

definition sample_clock_change :: env where
  "sample_clock_change = sample_env\<lparr>localTZA :=
     (\<lambda>t isUTC. if isUTC then (if t < 1704808800000 then 7200000 else 3600000)
                 else (if t < 1704816000000 then 7200000 else 3600000))\<rparr>"

definition sample_db :: backend where
  "sample_db = \<lparr>admissions_table = [sample_admission, sample_discharged],
     consultations_table = [sample_consultation], patients_table = [sample_patient],
     medical_notes = [], issued = []\<rparr>"

definition sample_store :: DischargeStore where
  "sample_store = \<lparr>activePatients = [], loading = False, error = None,
     selectedPatient = Some (admissionPatient sample_admission)\<rparr>"

definition sample_form :: FormData where
  "sample_form = \<lparr>fd_discharge_date = ''2024-01-10'', fd_discharge_type = ''regular'',
     fd_follow_up_required = True, fd_follow_up_date = ''2024-01-20'',
     fd_discharge_note = ''stable''\<rparr>"

text \<open>A patient no longer in the storage, still selected in the patient store.\<close>

definition sample_gone :: Patient where
  "sample_gone = \<lparr>pt_id = 99, pt_mrn = ''Z900'', pt_name = ''Patient Z'',
     pt_date_of_birth = ''1950-01-01'', pt_gender = ''male'', pt_department = None,
     pt_doctor_name = None, pt_diagnosis = None, pt_admission_date = None,
     pt_admissions = None\<rparr>"

definition sample_patient_store :: PatientStore where
  "sample_patient_store = \<lparr>patients = [], ps_selectedPatient = Some sample_gone,
     ps_loading = False, ps_error = None\<rparr>"

section \<open>Properties\<close>

subsection \<open>Lists and the storage\<close>

lemma find_append_cases:
  "find P (xs @ ys) = (case find P xs of None \<Rightarrow> find P ys | Some x \<Rightarrow> Some x)"
  by (induction xs) auto

lemma find_map_comp: "find P (map f xs) = map_option f (find (\<lambda>x. P (f x)) xs)"
  by (induction xs) auto

lemma issued_issue: "issued (issue r db) = issued db @ [r]"
  by (simp add: issue_def)

lemma tables_issue:
  "admissions_table (issue r db) = admissions_table db"
  "consultations_table (issue r db) = consultations_table db"
  "patients_table (issue r db) = patients_table db"
  "medical_notes (issue r db) = medical_notes db"
  by (simp_all add: issue_def)

text \<open>What a successful fetch leaves in the store and the storage.\<close>

lemma fetchActivePatients_ok:
  assumes "faults e QueryAdmissions = None" and "faults e QueryConsultations = None"
  shows "fetchActivePatients e (db, st) =
           (issue SelectActiveConsultations (issue SelectActiveAdmissions db),
            (reconcile (allPatients (Some (active_admissions db)) (Some (active_consultations db)))
               (st\<lparr>loading := True, error := None\<rparr>))
              \<lparr>activePatients :=
                 allPatients (Some (active_admissions db)) (Some (active_consultations db)),
               loading := False\<rparr>)"
  using assms
  by (simp add: fetchActivePatients_def Let_def active_admissions_def active_consultations_def
      tables_issue)

lemma fetchActivePatients_tables:
  "admissions_table (fst (fetchActivePatients e (db, st))) = admissions_table db"
  "consultations_table (fst (fetchActivePatients e (db, st))) = consultations_table db"
  "patients_table (fst (fetchActivePatients e (db, st))) = patients_table db"
  "medical_notes (fst (fetchActivePatients e (db, st))) = medical_notes db"
  by (simp_all add: fetchActivePatients_def Let_def tables_issue split: option.splits)

lemma fetchActivePatients_reads:
  "filter is_write (issued (fst (fetchActivePatients e (db, st)))) = filter is_write (issued db)"
  by (simp add: fetchActivePatients_def Let_def issued_issue split: option.splits)

lemma selected_reconcile:
  "selectedPatient (reconcile ps st) =
     (case selectedPatient st of None \<Rightarrow> None
      | Some sel \<Rightarrow> find (\<lambda>p. ap_id p = ap_id sel) ps)"
  by (simp add: reconcile_def split: option.splits)

lemma roster_entries:
  assumes "faults e QueryAdmissions = None" and "faults e QueryConsultations = None"
  shows "activePatients (snd (fetchActivePatients e (db, st))) =
           map admissionPatient (filter (\<lambda>a. adm_status a = ''active'') (admissions_table db))
           @ map consultationPatient
               (filter (\<lambda>c. con_status c = ''active'') (consultations_table db))"
  by (simp add: fetchActivePatients_ok [OF assms] allPatients_def or_empty_def
      active_admissions_def active_consultations_def)


lemma fetchActivePatients_issued:
  "issued (fst (fetchActivePatients e (db, st))) =
     issued db @ SelectActiveAdmissions
       # (if faults e QueryAdmissions = None then [SelectActiveConsultations] else [])"
  by (simp add: fetchActivePatients_def Let_def issued_issue split: option.splits)

lemma validated_follow_up:
  assumes "no_errors (validateForm e formData)" and "fd_follow_up_required formData"
  shows "fd_follow_up_date formData \<noteq> []"
  using assms by (auto simp: no_errors_def validateForm_def Let_def split: if_splits)

lemma validated_submit:
  assumes "selectedPatient st \<noteq> None" and "currentUser e \<noteq> None"
    and "no_errors (validateForm e formData)"
  shows "handleSubmit e formData (db, st) =
           (case processDischarge e (dischargeData formData) (db, st) of
              (Inl err, db1, st1) \<Rightarrow> (Failed (message_of ''Error processing discharge'' err), db1, st1)
            | (Inr _, db1, st1) \<Rightarrow> (Done, db1, st1))"
  using assms by (auto simp: handleSubmit_def)

text \<open>The admission branch when the update goes through, whatever the note does.\<close>

lemma discharge_admission_written:
  assumes "faults e WriteAdmission = None"
  shows "discharge_admission e data sel user db =
           addNote e
             \<lparr>note_patient_id = ap_patient_id sel, note_doctor_id = user_id user,
              note_type = ''Discharge Summary'', note_content = discharge_note data\<rparr>
             ((issue (UpdateAdmission (ap_id sel)
                 \<lparr>au_status = ''discharged'', au_discharge_date = discharge_date data,
                  au_discharge_type = discharge_type data,
                  au_follow_up_required = follow_up_required data,
                  au_follow_up_date = or_else (follow_up_date data) None,
                  au_discharge_note = discharge_note data,
                  au_discharge_doctor_id = user_id user\<rparr>) db)
              \<lparr>admissions_table := apply_admission_update (ap_id sel)
                 \<lparr>au_status = ''discharged'', au_discharge_date = discharge_date data,
                  au_discharge_type = discharge_type data,
                  au_follow_up_required = follow_up_required data,
                  au_follow_up_date = or_else (follow_up_date data) None,
                  au_discharge_note = discharge_note data,
                  au_discharge_doctor_id = user_id user\<rparr> (admissions_table db)\<rparr>)"
  using assms by (simp add: discharge_admission_def Let_def tables_issue)

lemma addNote_appended:
  assumes "addNote_outcome e = Appended"
  shows "addNote e n db = (Inr (), (issue (InsertNote n) db)\<lparr>medical_notes := medical_notes db @ [n]\<rparr>)"
  using assms by (simp add: addNote_def Let_def tables_issue)

lemma processDischarge_run:
  assumes "selectedPatient st = Some sel" and "currentUser e = Some user"
  shows "processDischarge e data (db, st) =
          (case (if ap_isConsultation sel = Some True
                 then complete_consultation e data sel user db
                 else discharge_admission e data sel user db) of
             (Inl err, db1) \<Rightarrow> discharge_failed err db1 (st\<lparr>loading := True, error := None\<rparr>)
           | (Inr _, db1) \<Rightarrow>
               (Inr (), fst (fetchActivePatients e (db1, st\<lparr>loading := True, error := None\<rparr>)),
                (snd (fetchActivePatients e (db1, st\<lparr>loading := True, error := None\<rparr>)))
                  \<lparr>selectedPatient := None, loading := False\<rparr>))"
  using assms by (simp add: processDischarge_def Let_def split_beta split: sum.splits)

text \<open>
  Claim C1. A discharge submitted from the form for an admission-backed entry (the
  selected entry has \<open>isConsultation\<close> unset), by a logged-in user, with the update
  and the note insert going through: \<open>processDischarge\<close> returns normally, and the
  writes it issued are the update of the admission with the selected id, carrying
  \<open>status = discharged\<close>, the form's date and type, the follow-up flag, the follow-up
  date when the flag is set and null otherwise, the note and the user's id, followed by
  the insert of a \<open>Discharge Summary\<close> note whose content is the note text. The rows of
  \<open>admissions\<close> with that id carry the update, the note is the last of the feed, and
  \<open>consultations\<close> is untouched. The form's validation is what makes the written
  follow-up date the form's own when the flag is set.
\<close>

theorem discharge_writes_admission:
  assumes "selectedPatient st = Some sel" and "ap_isConsultation sel \<noteq> Some True"
    and "currentUser e = Some user" and "no_errors (validateForm e formData)"
    and "faults e WriteAdmission = None" and "addNote_outcome e = Appended"
  shows "let u = \<lparr>au_status = ''discharged'',
                   au_discharge_date = fd_discharge_date formData,
                   au_discharge_type = fd_discharge_type formData,
                   au_follow_up_required = fd_follow_up_required formData,
                   au_follow_up_date = (if fd_follow_up_required formData
                                        then Some (fd_follow_up_date formData) else None),
                   au_discharge_note = fd_discharge_note formData,
                   au_discharge_doctor_id = user_id user\<rparr>;
             n = \<lparr>note_patient_id = ap_patient_id sel, note_doctor_id = user_id user,
                   note_type = ''Discharge Summary'',
                   note_content = fd_discharge_note formData\<rparr>;
             r = processDischarge e (dischargeData formData) (db, st);
             db' = fst (snd r)
         in fst r = Inr ()
            \<and> handleSubmit e formData (db, st) = (Done, snd r)
            \<and> filter is_write (issued db') =
                filter is_write (issued db) @ [UpdateAdmission (ap_id sel) u, InsertNote n]
            \<and> admissions_table db' = apply_admission_update (ap_id sel) u (admissions_table db)
            \<and> medical_notes db' = medical_notes db @ [n]
            \<and> consultations_table db' = consultations_table db"
proof -
  have fu: "or_else (follow_up_date (dischargeData formData)) None =
              (if fd_follow_up_required formData then Some (fd_follow_up_date formData) else None)"
    using validated_follow_up [OF assms(4)] by (simp add: dischargeData_def or_else_def)
  have run: "processDischarge e (dischargeData formData) (db, st) =
          (case discharge_admission e (dischargeData formData) sel user db of
             (Inl err, db1) \<Rightarrow> discharge_failed err db1 (st\<lparr>loading := True, error := None\<rparr>)
           | (Inr _, db1) \<Rightarrow>
               (Inr (), fst (fetchActivePatients e (db1, st\<lparr>loading := True, error := None\<rparr>)),
                (snd (fetchActivePatients e (db1, st\<lparr>loading := True, error := None\<rparr>)))
                  \<lparr>selectedPatient := None, loading := False\<rparr>))"
    using processDischarge_run [OF assms(1) assms(3)] assms(2) by simp
  have sub: "handleSubmit e formData (db, st) =
           (case processDischarge e (dischargeData formData) (db, st) of
              (Inl err, db1, st1) \<Rightarrow> (Failed (message_of ''Error processing discharge'' err), db1, st1)
            | (Inr _, db1, st1) \<Rightarrow> (Done, db1, st1))"
    using validated_submit [OF _ _ assms(4)] assms(1,3) by simp
  show ?thesis
    unfolding sub run discharge_admission_written [OF assms(5)] addNote_appended [OF assms(6)] fu
    by (simp add: Let_def fetchActivePatients_tables fetchActivePatients_reads issued_issue
        tables_issue dischargeData_def)
qed

lemma complete_consultation_written:
  assumes "faults e WriteConsultation = None"
  shows "complete_consultation e data sel user db =
           addNote e
             \<lparr>note_patient_id = ap_patient_id sel, note_doctor_id = user_id user,
              note_type = ''Consultation Note'', note_content = discharge_note data\<rparr>
             ((issue (UpdateConsultation (ap_consultation_id sel)
                 \<lparr>cu_status = ''completed'', cu_completion_note = discharge_note data,
                  cu_completed_by = user_id user, cu_completed_at = now_iso e\<rparr>) db)
              \<lparr>consultations_table := apply_consultation_update (ap_consultation_id sel)
                 \<lparr>cu_status = ''completed'', cu_completion_note = discharge_note data,
                  cu_completed_by = user_id user, cu_completed_at = now_iso e\<rparr>
                 (consultations_table db)\<rparr>)"
  using assms by (simp add: complete_consultation_def Let_def tables_issue)

lemma status_after_admission_update:
  "map adm_status (apply_admission_update i u rows) =
     map (\<lambda>r. if adm_id r = i then au_status u else adm_status r) rows"
  by (induction rows) (simp_all add: apply_admission_update_def)

lemma status_after_consultation_update:
  "map con_status (apply_consultation_update i u rows) =
     map (\<lambda>r. if Some (con_id r) = i then cu_status u else con_status r) rows"
  by (induction rows) (simp_all add: apply_consultation_update_def)

text \<open>The status write alone: what both branches do up to the note.\<close>

lemma status_write_fails:
  assumes "faults e (if ap_isConsultation sel = Some True then WriteConsultation
                     else WriteAdmission) = Some err"
  shows "\<exists>q. (if ap_isConsultation sel = Some True
               then complete_consultation e data sel user db
               else discharge_admission e data sel user db) = (Inl err, issue q db)
             \<and> is_write q \<and> (\<forall>n. q \<noteq> InsertNote n)"
  using assms
  by (auto simp: complete_consultation_def discharge_admission_def Let_def split: if_splits)

text \<open>
  Claim C4. In a run of \<open>processDischarge\<close> with an entry selected and a user logged
  in: when the status update (of the admission, or of the consultation) fails, the run
  throws that error after issuing the update alone, so no note insert and no re-fetch
  follow, no table and no note changed, and the selection and the roster are as before;
  when the update goes through and the note is not appended, the note feed is unchanged
  and the status stays changed (\<open>discharged\<close> for the rows of the admission,
  \<open>completed\<close> for those of the consultation), and a thrown note error leaves the
  selection in place.
\<close>

theorem discharge_failure_steps:
  assumes "selectedPatient st = Some sel" and "currentUser e = Some user"
  shows "let w = (if ap_isConsultation sel = Some True then WriteConsultation else WriteAdmission);
             r = processDischarge e data (db, st);
             db' = fst (snd r);
             st' = snd (snd r)
         in (\<forall>err. faults e w = Some err \<longrightarrow>
               fst r = Inl err
               \<and> (\<exists>q. issued db' = issued db @ [q] \<and> is_write q \<and> (\<forall>n. q \<noteq> InsertNote n))
               \<and> medical_notes db' = medical_notes db
               \<and> admissions_table db' = admissions_table db
               \<and> consultations_table db' = consultations_table db
               \<and> selectedPatient st' = Some sel
               \<and> activePatients st' = activePatients st
               \<and> error st' = Some (message_of ''An error occurred'' err)
               \<and> loading st' = False)
          \<and> (faults e w = None \<and> addNote_outcome e \<noteq> Appended \<longrightarrow>
               medical_notes db' = medical_notes db
               \<and> (ap_isConsultation sel \<noteq> Some True \<longrightarrow>
                    map adm_status (admissions_table db') =
                      map (\<lambda>r. if adm_id r = ap_id sel then ''discharged'' else adm_status r)
                        (admissions_table db))
               \<and> (ap_isConsultation sel = Some True \<longrightarrow>
                    map con_status (consultations_table db') =
                      map (\<lambda>r. if Some (con_id r) = ap_consultation_id sel then ''completed''
                                else con_status r) (consultations_table db))
               \<and> (\<forall>err. addNote_outcome e = Rejected err \<longrightarrow>
                    fst r = Inl err \<and> selectedPatient st' = Some sel))"
proof -
  let ?w = "if ap_isConsultation sel = Some True then WriteConsultation else WriteAdmission"
  let ?r = "processDischarge e data (db, st)"
  note run = processDischarge_run [OF assms, of data db]
  have first: "fst ?r = Inl err
               \<and> (\<exists>q. issued (fst (snd ?r)) = issued db @ [q] \<and> is_write q \<and> (\<forall>n. q \<noteq> InsertNote n))
               \<and> medical_notes (fst (snd ?r)) = medical_notes db
               \<and> admissions_table (fst (snd ?r)) = admissions_table db
               \<and> consultations_table (fst (snd ?r)) = consultations_table db
               \<and> selectedPatient (snd (snd ?r)) = Some sel
               \<and> activePatients (snd (snd ?r)) = activePatients st
               \<and> error (snd (snd ?r)) = Some (message_of ''An error occurred'' err)
               \<and> loading (snd (snd ?r)) = False"
    if "faults e ?w = Some err" for err
  proof -
    from status_write_fails [OF that, of data user db] obtain q where
      q: "(if ap_isConsultation sel = Some True
            then complete_consultation e data sel user db
            else discharge_admission e data sel user db) = (Inl err, issue q db)"
         "is_write q" "\<forall>n. q \<noteq> InsertNote n"
      by blast
    show ?thesis
      unfolding run q(1) using q(2,3) assms(1)
      by (simp add: discharge_failed_def issued_issue tables_issue)
  qed
  have second: "medical_notes (fst (snd ?r)) = medical_notes db
               \<and> (ap_isConsultation sel \<noteq> Some True \<longrightarrow>
                    map adm_status (admissions_table (fst (snd ?r))) =
                      map (\<lambda>r. if adm_id r = ap_id sel then ''discharged'' else adm_status r)
                        (admissions_table db))
               \<and> (ap_isConsultation sel = Some True \<longrightarrow>
                    map con_status (consultations_table (fst (snd ?r))) =
                      map (\<lambda>r. if Some (con_id r) = ap_consultation_id sel then ''completed''
                                else con_status r) (consultations_table db))
               \<and> (\<forall>err. addNote_outcome e = Rejected err \<longrightarrow>
                    fst ?r = Inl err \<and> selectedPatient (snd (snd ?r)) = Some sel)"
    if ok: "faults e ?w = None" and na: "addNote_outcome e \<noteq> Appended"
  proof (cases "ap_isConsultation sel = Some True")
    case True
    with ok have w: "faults e WriteConsultation = None" by simp
    show ?thesis
      unfolding run using True na assms(1)
      by (cases "addNote_outcome e")
        (simp_all add: complete_consultation_written [OF w] addNote_def Let_def
          discharge_failed_def fetchActivePatients_tables tables_issue
          status_after_consultation_update)
  next
    case False
    with ok have w: "faults e WriteAdmission = None" by simp
    show ?thesis
      unfolding run using False na assms(1)
      by (cases "addNote_outcome e")
        (simp_all add: discharge_admission_written [OF w] addNote_def Let_def
          discharge_failed_def fetchActivePatients_tables tables_issue
          status_after_admission_update)
  qed
  show ?thesis
    unfolding Let_def using first second by blast
qed

text \<open>
  Claim C9. In a run of \<open>processDischarge\<close> where the status update and the note
  insert succeed, the run returns normally; after the two writes it issues the queries
  of the roster re-fetch, and then the selected entry is null and \<open>loading\<close> is false,
  whatever the re-fetch found (also when an entry with the selected id is in the new
  roster, and when the re-fetch failed). When both queries go through, the roster is the
  one built from the storage as the writes left it.
\<close>

theorem discharge_refetch_then_clear:
  assumes "selectedPatient st = Some sel" and "currentUser e = Some user"
    and "faults e (if ap_isConsultation sel = Some True then WriteConsultation
                   else WriteAdmission) = None"
    and "addNote_outcome e = Appended"
  shows "let r = processDischarge e data (db, st);
             db' = fst (snd r);
             st' = snd (snd r)
         in fst r = Inr ()
            \<and> selectedPatient st' = None
            \<and> loading st' = False
            \<and> (\<exists>q n. is_write q
                  \<and> issued db' = issued db @ [q, InsertNote n] @ SelectActiveAdmissions
                      # (if faults e QueryAdmissions = None then [SelectActiveConsultations]
                         else []))
            \<and> (faults e QueryAdmissions = None \<and> faults e QueryConsultations = None \<longrightarrow>
                  activePatients st' =
                    allPatients (Some (active_admissions db')) (Some (active_consultations db')))"
proof (cases "ap_isConsultation sel = Some True")
  case True
  with assms(3) have w: "faults e WriteConsultation = None" by simp
  have roster: "activePatients (snd (fetchActivePatients e (d, s))) =
      allPatients (Some (active_admissions (fst (fetchActivePatients e (d, s)))))
        (Some (active_consultations (fst (fetchActivePatients e (d, s)))))"
    if "faults e QueryAdmissions = None \<and> faults e QueryConsultations = None" for d s
    using that by (simp add: fetchActivePatients_ok active_admissions_def
        active_consultations_def tables_issue)
  show ?thesis
    unfolding processDischarge_run [OF assms(1,2)] complete_consultation_written [OF w]
      addNote_appended [OF assms(4)] Let_def
    using True roster
    by (simp add: fetchActivePatients_issued issued_issue)
next
  case False
  with assms(3) have w: "faults e WriteAdmission = None" by simp
  have roster: "activePatients (snd (fetchActivePatients e (d, s))) =
      allPatients (Some (active_admissions (fst (fetchActivePatients e (d, s)))))
        (Some (active_consultations (fst (fetchActivePatients e (d, s)))))"
    if "faults e QueryAdmissions = None \<and> faults e QueryConsultations = None" for d s
    using that by (simp add: fetchActivePatients_ok active_admissions_def
        active_consultations_def tables_issue)
  show ?thesis
    unfolding processDischarge_run [OF assms(1,2)] discharge_admission_written [OF w]
      addNote_appended [OF assms(4)] Let_def
    using False roster
    by (simp add: fetchActivePatients_issued issued_issue)
qed

text \<open>
  Claim C10. The reconciliation of \<open>fetchActivePatients\<close> compares the \<open>id\<close> field
  alone: while a consultation-backed entry with id \<open>i\<close> is selected, a refresh that
  finds an active admission with id \<open>i\<close> replaces the selection by the entry of the
  first such admission, which is admission-backed (\<open>isConsultation\<close> unset), whether or
  not the consultation is still in the list.
\<close>

theorem reconcile_by_id_alone:
  assumes "faults e QueryAdmissions = None" and "faults e QueryConsultations = None"
    and "selectedPatient st = Some sel" and "ap_isConsultation sel = Some True"
    and "find (\<lambda>a. adm_id a = ap_id sel)
           (filter (\<lambda>a. adm_status a = ''active'') (admissions_table db)) = Some a"
  shows "selectedPatient (snd (fetchActivePatients e (db, st))) = Some (admissionPatient a)
         \<and> ap_isConsultation (admissionPatient a) = None
         \<and> ap_id (admissionPatient a) = ap_id sel"
proof -
  have id: "adm_id a = ap_id sel"
    using assms(5) by (auto simp: find_Some_iff)
  have "find (\<lambda>p. ap_id p = ap_id sel)
          (allPatients (Some (active_admissions db)) (Some (active_consultations db))) =
        Some (admissionPatient a)"
    using assms(5)
    by (simp add: allPatients_def or_empty_def active_admissions_def find_append_cases
        find_map_comp admissionPatient_def)
  then show ?thesis
    using assms(3) id
    by (simp add: fetchActivePatients_ok [OF assms(1,2)] selected_reconcile admissionPatient_def)
qed

lemma list_all2_map_same: "list_all2 P xs (map f xs) \<longleftrightarrow> (\<forall>x \<in> set xs. P x (f x))"
  by (simp add: list_all2_map2 list_all2_same)

text \<open>
  Claim C7. When both queries go through, the roster \<open>fetchActivePatients\<close> stores is
  one entry for each admission with status \<open>active\<close>, in the table's order, followed
  by one entry for each consultation with status \<open>active\<close>, in the table's order. The
  entry of an admission has the admission's id, patient id, dates, department, diagnosis,
  doctor id, shift and weekend flag, the patient's MRN and name, the doctor's name or
  \<open>Not assigned\<close>, and \<open>isConsultation\<close> and \<open>consultation_id\<close> unset. The entry of a
  consultation has the consultation's id (also as \<open>consultation_id\<close>), patient id,
  MRN, name, creation date, specialty, reason, doctor name or \<open>Pending Assignment\<close>,
  doctor id or 0, and \<open>isConsultation = true\<close>, \<open>status = active\<close>,
  \<open>shift_type = morning\<close>, \<open>is_weekend = false\<close>. Every entry has status
  \<open>active\<close>; every entry that is not a consultation's is the entry of an active
  admission with its id; the entry of a discharged admission is not in the roster, and
  when admission ids are distinct no admission-backed entry has a discharged admission's
  id.
\<close>

theorem roster_contents:
  assumes "faults e QueryAdmissions = None" and "faults e QueryConsultations = None"
  shows "let roster = activePatients (snd (fetchActivePatients e (db, st)));
             actives = filter (\<lambda>a. adm_status a = ''active'') (admissions_table db);
             pending = filter (\<lambda>c. con_status c = ''active'') (consultations_table db)
         in roster = map admissionPatient actives @ map consultationPatient pending
            \<and> (\<exists>as cs. roster = as @ cs
                 \<and> list_all2
                     (\<lambda>a p. ap_id p = adm_id a
                        \<and> ap_patient_id p = adm_patient_id a
                        \<and> ap_mrn p = (case adm_patient a of [] \<Rightarrow> [] | r # _ \<Rightarrow> ref_mrn r)
                        \<and> ap_name p = (case adm_patient a of [] \<Rightarrow> [] | r # _ \<Rightarrow> ref_name r)
                        \<and> ap_admission_date p = adm_admission_date a
                        \<and> ap_department p = adm_department a
                        \<and> ap_doctor_name p =
                            (case adm_admitting_doctor a of
                               None \<Rightarrow> ''Not assigned''
                             | Some [] \<Rightarrow> ''Not assigned''
                             | Some (d # _) \<Rightarrow>
                                 if user_name d = [] then ''Not assigned'' else user_name d)
                        \<and> ap_diagnosis p = adm_diagnosis a
                        \<and> ap_status p = ''active''
                        \<and> ap_admitting_doctor_id p = adm_admitting_doctor_id a
                        \<and> ap_shift_type p = adm_shift_type a
                        \<and> ap_is_weekend p = adm_is_weekend a
                        \<and> ap_isConsultation p = None
                        \<and> ap_consultation_id p = None)
                     actives as
                 \<and> list_all2
                     (\<lambda>c p. ap_id p = con_id c
                        \<and> ap_patient_id p = con_patient_id c
                        \<and> ap_mrn p = con_mrn c
                        \<and> ap_name p = con_patient_name c
                        \<and> ap_admission_date p = con_created_at c
                        \<and> ap_department p = con_consultation_specialty c
                        \<and> ap_doctor_name p =
                            (case con_doctor_name c of
                               None \<Rightarrow> ''Pending Assignment''
                             | Some n \<Rightarrow> if n = [] then ''Pending Assignment'' else n)
                        \<and> ap_diagnosis p = con_reason c
                        \<and> ap_status p = ''active''
                        \<and> ap_admitting_doctor_id p =
                            (case con_doctor_id c of None \<Rightarrow> 0 | Some i \<Rightarrow> i)
                        \<and> ap_shift_type p = ''morning''
                        \<and> ap_is_weekend p = False
                        \<and> ap_isConsultation p = Some True
                        \<and> ap_consultation_id p = Some (con_id c))
                     pending cs)
            \<and> map ap_id roster = map adm_id actives @ map con_id pending
            \<and> (\<forall>a. ap_isConsultation (admissionPatient a) = None)
            \<and> (\<forall>c. ap_isConsultation (consultationPatient c) = Some True
                   \<and> ap_shift_type (consultationPatient c) = ''morning''
                   \<and> ap_is_weekend (consultationPatient c) = False)
            \<and> (\<forall>p \<in> set roster.
                   ap_status p = ''active''
                   \<and> (ap_isConsultation p \<noteq> Some True \<longrightarrow>
                        (\<exists>a \<in> set (admissions_table db).
                           adm_status a = ''active'' \<and> adm_id a = ap_id p
                           \<and> p = admissionPatient a)))
            \<and> (\<forall>a \<in> set (admissions_table db). adm_status a = ''discharged'' \<longrightarrow>
                   admissionPatient a \<notin> set roster)
            \<and> (distinct (map adm_id (admissions_table db)) \<longrightarrow>
                 (\<forall>a \<in> set (admissions_table db). adm_status a = ''discharged'' \<longrightarrow>
                    (\<forall>p \<in> set roster. ap_isConsultation p \<noteq> Some True \<longrightarrow>
                       ap_id p \<noteq> adm_id a)))"
proof -
  let ?ps = "activePatients (snd (fetchActivePatients e (db, st)))"
  let ?A = "filter (\<lambda>a. adm_status a = ''active'') (admissions_table db)"
  let ?C = "filter (\<lambda>c. con_status c = ''active'') (consultations_table db)"
  note eq = roster_entries [OF assms, of db st]
  have rows: "\<exists>as cs. ?ps = as @ cs
                 \<and> list_all2
                     (\<lambda>a p. ap_id p = adm_id a
                        \<and> ap_patient_id p = adm_patient_id a
                        \<and> ap_mrn p = (case adm_patient a of [] \<Rightarrow> [] | r # _ \<Rightarrow> ref_mrn r)
                        \<and> ap_name p = (case adm_patient a of [] \<Rightarrow> [] | r # _ \<Rightarrow> ref_name r)
                        \<and> ap_admission_date p = adm_admission_date a
                        \<and> ap_department p = adm_department a
                        \<and> ap_doctor_name p =
                            (case adm_admitting_doctor a of
                               None \<Rightarrow> ''Not assigned''
                             | Some [] \<Rightarrow> ''Not assigned''
                             | Some (d # _) \<Rightarrow>
                                 if user_name d = [] then ''Not assigned'' else user_name d)
                        \<and> ap_diagnosis p = adm_diagnosis a
                        \<and> ap_status p = ''active''
                        \<and> ap_admitting_doctor_id p = adm_admitting_doctor_id a
                        \<and> ap_shift_type p = adm_shift_type a
                        \<and> ap_is_weekend p = adm_is_weekend a
                        \<and> ap_isConsultation p = None
                        \<and> ap_consultation_id p = None)
                     ?A as
                 \<and> list_all2
                     (\<lambda>c p. ap_id p = con_id c
                        \<and> ap_patient_id p = con_patient_id c
                        \<and> ap_mrn p = con_mrn c
                        \<and> ap_name p = con_patient_name c
                        \<and> ap_admission_date p = con_created_at c
                        \<and> ap_department p = con_consultation_specialty c
                        \<and> ap_doctor_name p =
                            (case con_doctor_name c of
                               None \<Rightarrow> ''Pending Assignment''
                             | Some n \<Rightarrow> if n = [] then ''Pending Assignment'' else n)
                        \<and> ap_diagnosis p = con_reason c
                        \<and> ap_status p = ''active''
                        \<and> ap_admitting_doctor_id p =
                            (case con_doctor_id c of None \<Rightarrow> 0 | Some i \<Rightarrow> i)
                        \<and> ap_shift_type p = ''morning''
                        \<and> ap_is_weekend p = False
                        \<and> ap_isConsultation p = Some True
                        \<and> ap_consultation_id p = Some (con_id c))
                     ?C cs"
    unfolding eq
    by (intro exI [of _ "map admissionPatient ?A"] exI [of _ "map consultationPatient ?C"])
      (auto simp: list_all2_map_same admissionPatient_def consultationPatient_def
        or_str_def or_num_def first_def split: list.splits option.splits)
  have ids: "map ap_id ?ps = map adm_id ?A @ map con_id ?C"
    unfolding eq by (simp add: admissionPatient_def consultationPatient_def)
  have all: "\<forall>p \<in> set ?ps.
           ap_status p = ''active''
           \<and> (ap_isConsultation p \<noteq> Some True \<longrightarrow>
                (\<exists>a \<in> set (admissions_table db).
                   adm_status a = ''active'' \<and> adm_id a = ap_id p \<and> p = admissionPatient a))"
    unfolding eq by (auto simp: admissionPatient_def consultationPatient_def)
  have gone: "\<forall>a \<in> set (admissions_table db). adm_status a = ''discharged'' \<longrightarrow>
           admissionPatient a \<notin> set ?ps"
  proof (intro ballI impI notI)
    fix a assume "adm_status a = ''discharged''" and "admissionPatient a \<in> set ?ps"
    with all have "ap_status (admissionPatient a) = ''active''" by blast
    with \<open>adm_status a = ''discharged''\<close> show False by (simp add: admissionPatient_def)
  qed
  have gone_id: "\<forall>a \<in> set (admissions_table db). adm_status a = ''discharged'' \<longrightarrow>
                    (\<forall>p \<in> set ?ps. ap_isConsultation p \<noteq> Some True \<longrightarrow> ap_id p \<noteq> adm_id a)"
    if d: "distinct (map adm_id (admissions_table db))"
  proof (intro ballI impI notI)
    fix a p
    assume a: "a \<in> set (admissions_table db)" "adm_status a = ''discharged''"
      and p: "p \<in> set ?ps" "ap_isConsultation p \<noteq> Some True" "ap_id p = adm_id a"
    from all p obtain a' where a': "a' \<in> set (admissions_table db)" "adm_status a' = ''active''"
      "adm_id a' = ap_id p"
      by blast
    from d have "inj_on adm_id (set (admissions_table db))"
      by (simp add: distinct_map)
    with a(1) a'(1,3) p(3) have "a' = a"
      by (auto dest: inj_onD)
    with a(2) a'(2) show False by simp
  qed
  have adm: "\<forall>a. ap_isConsultation (admissionPatient a) = None"
    by (simp add: admissionPatient_def)
  have con: "\<forall>c. ap_isConsultation (consultationPatient c) = Some True
                \<and> ap_shift_type (consultationPatient c) = ''morning''
                \<and> ap_is_weekend (consultationPatient c) = False"
    by (simp add: consultationPatient_def)
  from eq rows ids adm con all gone gone_id show ?thesis
    unfolding Let_def by blast
qed

text \<open>
  Claim C5. When no roster entry is selected, or no user is logged in, \<open>processDischarge\<close>
  throws the precondition error (\<open>No patient selected\<close>, else \<open>No user logged in\<close>)
  and the storage is returned as it was: no request was issued, so no admission update,
  no consultation update and no note insert, and no table changed. The store keeps the
  message and \<open>loading\<close> is false.
\<close>

theorem processDischarge_preconditions:
  assumes "selectedPatient st = None \<or> currentUser e = None"
  shows "let msg = (if selectedPatient st = None then ''No patient selected''
                    else ''No user logged in'')
         in processDischarge e data (db, st) =
              (Inl (Error msg), db, st\<lparr>loading := False, error := Some msg\<rparr>)"
  using assms
  by (auto simp: processDischarge_def discharge_failed_def message_of_def Let_def
      split: option.splits)

subsection \<open>The patient aggregator\<close>

lemma set_insert_sorted: "set (insert_sorted cmp x ys) = insert x (set ys)"
  by (induction ys) auto

lemma mset_insert_sorted: "mset (insert_sorted cmp x ys) = add_mset x (mset ys)"
  by (induction ys) auto

lemma mset_sort_with: "mset (sort_with cmp xs) = mset xs"
  by (induction xs) (simp_all add: sort_with_def mset_insert_sorted)

lemma set_sort_with: "set (sort_with cmp xs) = set xs"
  by (metis mset_sort_with set_mset_mset)

text \<open>With a comparator that is the difference of keys, insertion keeps the keys descending.\<close>

lemma sorted_insert_sorted:
  assumes "\<And>a b. a \<in> A \<Longrightarrow> b \<in> A \<Longrightarrow> cmp a b = Some (k b - k a)"
    and "x \<in> A" and "set ys \<subseteq> A" and "sorted_wrt (\<lambda>a b. k b \<le> k a) ys"
  shows "sorted_wrt (\<lambda>a b. (k b :: int) \<le> k a) (insert_sorted cmp x ys)"
  using assms(3,4)
proof (induction ys)
  case Nil
  then show ?case by simp
next
  case (Cons y ys)
  have c: "cmp x y = Some (k y - k x)"
    using assms(1) [OF assms(2), of y] Cons.prems(1) by simp
  show ?case
  proof (cases "k y \<le> k x")
    case True
    with c Cons.prems show ?thesis by (auto simp: order_trans)
  next
    case False
    with c Cons show ?thesis by (auto simp: set_insert_sorted)
  qed
qed

lemma sorted_sort_with:
  assumes "\<And>a b. a \<in> A \<Longrightarrow> b \<in> A \<Longrightarrow> cmp a b = Some (k b - k a)" and "set xs \<subseteq> A"
  shows "sorted_wrt (\<lambda>a b. (k b :: int) \<le> k a) (sort_with cmp xs)"
  using assms(2)
proof (induction xs)
  case Nil
  then show ?case by (simp add: sort_with_def)
next
  case (Cons x xs)
  have "sorted_wrt (\<lambda>a b. k b \<le> k a) (insert_sorted cmp x (sort_with cmp xs))"
    using Cons by (intro sorted_insert_sorted [where A = A] assms(1)) (auto simp: set_sort_with)
  then show ?case by (simp add: sort_with_def)
qed

lemma compare_valid:
  assumes "getTime e (adm_admission_date a) \<noteq> None" and "getTime e (adm_admission_date b) \<noteq> None"
  shows "compare_admissions e a b =
           Some (the (getTime e (adm_admission_date b)) - the (getTime e (adm_admission_date a)))"
  using assms by (auto simp: compare_admissions_def)

lemma sorted_admissions:
  assumes "\<forall>a \<in> set rows. getTime e (adm_admission_date a) \<noteq> None"
  shows "sorted_wrt (\<lambda>a b. the (getTime e (pa_admission_date b)) \<le> the (getTime e (pa_admission_date a)))
           (map admission_details (sort_with (compare_admissions e) rows))"
proof -
  have "sorted_wrt (\<lambda>a b. the (getTime e (adm_admission_date b)) \<le> the (getTime e (adm_admission_date a)))
          (sort_with (compare_admissions e) rows)"
    by (rule sorted_sort_with [where A = "set rows"]) (use assms in \<open>auto simp: compare_valid\<close>)
  then show ?thesis
    by (simp add: sorted_wrt_map admission_details_def)
qed

lemma or_else_Some: "or_else (Some s) b = (if s = [] then b else Some s)"
  by (simp add: or_else_def)

lemma or_else_None: "or_else None b = b"
  by (simp add: or_else_def)

text \<open>
  Claim C6, as amended. For a patient row with at least one admission, every admission
  date valid: the aggregated admissions are the row's admissions (each as the aggregator
  keeps it), ordered by admission date descending, so that the first is the most recent.
  Each derived field (department, diagnosis, admission date, doctor name) is that of the
  first admission with status \<open>active\<close> when there is one and its field is not empty
  (for the doctor name: it has an admitting doctor with a non-empty name); otherwise it is
  the field of the most recent admission.
\<close>

theorem patient_derived_fields:
  assumes "or_empty (pat_admissions row) \<noteq> []"
    and "\<forall>a \<in> set (or_empty (pat_admissions row)). getTime e (adm_admission_date a) \<noteq> None"
  shows "\<exists>latest rest.
           pt_admissions (patientWithDetails e row) = Some (latest # rest)
           \<and> mset (latest # rest) = mset (map admission_details (or_empty (pat_admissions row)))
           \<and> sorted_wrt (\<lambda>a b. the (getTime e (pa_admission_date b))
                              \<le> the (getTime e (pa_admission_date a))) (latest # rest)
           \<and> (case find (\<lambda>a. pa_status a = ''active'') (latest # rest) of
                 None \<Rightarrow>
                   pt_department (patientWithDetails e row) = Some (pa_department latest)
                   \<and> pt_diagnosis (patientWithDetails e row) = Some (pa_diagnosis latest)
                   \<and> pt_admission_date (patientWithDetails e row) = Some (pa_admission_date latest)
                   \<and> pt_doctor_name (patientWithDetails e row) =
                       map_option user_name (pa_admitting_doctor latest)
               | Some active \<Rightarrow>
                   pt_department (patientWithDetails e row) =
                     Some (if pa_department active \<noteq> [] then pa_department active
                           else pa_department latest)
                   \<and> pt_diagnosis (patientWithDetails e row) =
                       Some (if pa_diagnosis active \<noteq> [] then pa_diagnosis active
                             else pa_diagnosis latest)
                   \<and> pt_admission_date (patientWithDetails e row) =
                       Some (if pa_admission_date active \<noteq> [] then pa_admission_date active
                             else pa_admission_date latest)
                   \<and> pt_doctor_name (patientWithDetails e row) =
                       (case pa_admitting_doctor active of
                          None \<Rightarrow> map_option user_name (pa_admitting_doctor latest)
                        | Some d \<Rightarrow> if user_name d \<noteq> [] then Some (user_name d)
                                    else map_option user_name (pa_admitting_doctor latest)))"
proof -
  let ?adms = "map admission_details (sort_with (compare_admissions e) (or_empty (pat_admissions row)))"
  have "mset ?adms = mset (map admission_details (or_empty (pat_admissions row)))"
    by (simp add: mset_sort_with)
  moreover have "?adms \<noteq> []"
    using assms(1) by (metis Nil_is_map_conv mset_sort_with mset_zero_iff)
  then obtain latest rest where lr: "?adms = latest # rest"
    by (cases ?adms) auto
  moreover note sorted_admissions [OF assms(2)]
  moreover have "pt_admissions (patientWithDetails e row) = Some ?adms"
    by (simp add: patientWithDetails_def Let_def)
  moreover have "pt_department (patientWithDetails e row) =
      or_else (map_option pa_department (find (\<lambda>a. pa_status a = ''active'') ?adms))
        (map_option pa_department (first ?adms))"
    and "pt_diagnosis (patientWithDetails e row) =
      or_else (map_option pa_diagnosis (find (\<lambda>a. pa_status a = ''active'') ?adms))
        (map_option pa_diagnosis (first ?adms))"
    and "pt_admission_date (patientWithDetails e row) =
      or_else (map_option pa_admission_date (find (\<lambda>a. pa_status a = ''active'') ?adms))
        (map_option pa_admission_date (first ?adms))"
    and "pt_doctor_name (patientWithDetails e row) =
      or_else (doctor_name_of (find (\<lambda>a. pa_status a = ''active'') ?adms))
        (doctor_name_of (first ?adms))"
    by (simp_all add: patientWithDetails_def Let_def)
  ultimately show ?thesis
    unfolding lr
    by (intro exI [of _ latest] exI [of _ rest])
      (simp add: first_def doctor_name_of_def or_else_Some or_else_None
        split: option.splits)
qed


lemma fetchPatients_ok:
  assumes "faults e QueryPatients = None"
  shows "fetchPatients e includeAllDischarged (db, st) =
           (issue (SelectPatients (if includeAllDischarged then None else Some (cutoffTime e))) db,
            (reselect
               (map (patientWithDetails e)
                  (select_patients e (if includeAllDischarged then None else Some (cutoffTime e)) db))
               (st\<lparr>ps_loading := True, ps_error := None,
                   patients := map (patientWithDetails e)
                     (select_patients e
                        (if includeAllDischarged then None else Some (cutoffTime e)) db)\<rparr>))
              \<lparr>ps_loading := False\<rparr>)"
  using assms
  by (simp add: fetchPatients_def Let_def or_empty_def select_patients_def tables_issue)

lemma patients_reselect: "patients (reselect ps st) = patients st"
  by (simp add: reselect_def split: option.splits)


lemma in_window_iff:
  "in_window e cutoff a \<longleftrightarrow>
     adm_status a = ''active''
     \<or> (adm_status a = ''discharged''
         \<and> (\<exists>d t. adm_discharge_date a = Some d \<and> getTime e d = Some t \<and> cutoff \<le> t))"
  by (cases "adm_discharge_date a") (auto simp: in_window_def split: option.splits)

lemma filtered_embedding_kept:
  "or_empty (map_option (filter W) rows) \<noteq> [] \<longleftrightarrow> (\<exists>a \<in> set (or_empty rows). W a)"
  by (cases rows) (auto simp: or_empty_def filter_empty_conv)

lemma ids_select_patients_window:
  "map pat_id (select_patients e (Some cutoff) db) =
     map pat_id (filter (\<lambda>p. \<exists>a \<in> set (or_empty (pat_admissions p)). in_window e cutoff a)
       (patients_table db))"
proof -
  have "map pat_id (filter (\<lambda>p. or_empty (pat_admissions p) \<noteq> [])
          (map (\<lambda>p. p\<lparr>pat_admissions := map_option (filter W) (pat_admissions p)\<rparr>) ps)) =
        map pat_id (filter (\<lambda>p. \<exists>a \<in> set (or_empty (pat_admissions p)). W a) ps)" for W ps
    by (induction ps) (simp_all add: filtered_embedding_kept)
  then show ?thesis by (simp add: select_patients_def)
qed

lemma id_patientWithDetails: "pt_id (patientWithDetails e p) = pat_id p"
  by (simp add: patientWithDetails_def Let_def)

lemma fetchPatients_reads:
  "patients_table (fst (fetchPatients e flag (db, st))) = patients_table db"
  "admissions_table (fst (fetchPatients e flag (db, st))) = admissions_table db"
  "consultations_table (fst (fetchPatients e flag (db, st))) = consultations_table db"
  "medical_notes (fst (fetchPatients e flag (db, st))) = medical_notes db"
  "filter is_write (issued (fst (fetchPatients e flag (db, st)))) = filter is_write (issued db)"
  by (simp_all add: fetchPatients_def Let_def tables_issue issued_issue split: option.splits)

lemma default_view_ids:
  assumes "faults e QueryPatients = None"
  shows "map pt_id (patients (snd (fetchPatients e False (db, st)))) =
           map pat_id (filter (\<lambda>p. \<exists>a \<in> set (or_empty (pat_admissions p)).
                                 in_window e (cutoffTime e) a) (patients_table db))"
    and "map pt_id (patients (snd (fetchPatients e True (db, st)))) =
           map pat_id (patients_table db)"
proof -
  show "map pt_id (patients (snd (fetchPatients e False (db, st)))) =
           map pat_id (filter (\<lambda>p. \<exists>a \<in> set (or_empty (pat_admissions p)).
                                 in_window e (cutoffTime e) a) (patients_table db))"
    by (simp add: fetchPatients_ok [OF assms] patients_reselect comp_def
        id_patientWithDetails ids_select_patients_window)
  show "map pt_id (patients (snd (fetchPatients e True (db, st)))) =
           map pat_id (patients_table db)"
    by (simp add: fetchPatients_ok [OF assms] patients_reselect comp_def
        id_patientWithDetails select_patients_def)
qed

lemma cutoffTime_steady:
  assumes "\<forall>t isUTC. localTZA e t isUTC = z"
  shows "cutoffTime e = now_ms e - 18 * 3600000"
  using assms by (simp add: cutoffTime_def UTC_def LocalTime_def)

text \<open>
  Claim C8, as amended. With the flag false, the patients \<open>fetchPatients\<close> stores are,
  in the table's order, those with at least one admission that is active, or discharged
  with a discharge date not earlier than the cutoff; there is no upper bound on the
  discharge date. The cutoff is the instant whose local time is 18 hours of 3600000 ms
  before the local time of the clock; it is 18 hours before the clock when the local
  time zone adjustment does not change. With the flag true the patients stored are all
  the patients of the table. Whatever the flag and the outcome of the query, the tables
  are as before and no write was issued: patients outside the window are left out of
  the list, not deleted.
\<close>

theorem default_view_window:
  "(faults e QueryPatients = None \<longrightarrow>
      map pt_id (patients (snd (fetchPatients e False (db, st)))) =
        map pat_id
          (filter (\<lambda>p. \<exists>a \<in> set (or_empty (pat_admissions p)).
                     adm_status a = ''active''
                     \<or> (adm_status a = ''discharged''
                         \<and> (\<exists>d t. adm_discharge_date a = Some d \<and> getTime e d = Some t
                               \<and> cutoffTime e \<le> t)))
             (patients_table db))
      \<and> map pt_id (patients (snd (fetchPatients e True (db, st)))) =
          map pat_id (patients_table db))
   \<and> cutoffTime e =
       now_ms e + localTZA e (now_ms e) True - 18 * 3600000
       - localTZA e (now_ms e + localTZA e (now_ms e) True - 18 * 3600000) False
   \<and> ((\<forall>t isUTC. localTZA e t isUTC = localTZA e 0 True) \<longrightarrow>
        cutoffTime e = now_ms e - 18 * 3600000)
   \<and> (\<forall>flag. patients_table (fst (fetchPatients e flag (db, st))) = patients_table db
          \<and> admissions_table (fst (fetchPatients e flag (db, st))) = admissions_table db
          \<and> filter is_write (issued (fst (fetchPatients e flag (db, st)))) =
              filter is_write (issued db))"
proof -
  have "cutoffTime e =
       now_ms e + localTZA e (now_ms e) True - 18 * 3600000
       - localTZA e (now_ms e + localTZA e (now_ms e) True - 18 * 3600000) False"
    by (simp add: cutoffTime_def UTC_def LocalTime_def)
  moreover have "(\<forall>t isUTC. localTZA e t isUTC = localTZA e 0 True) \<longrightarrow>
        cutoffTime e = now_ms e - 18 * 3600000"
    using cutoffTime_steady [of e "localTZA e 0 True"] by blast
  moreover have "faults e QueryPatients = None \<longrightarrow>
      map pt_id (patients (snd (fetchPatients e False (db, st)))) =
        map pat_id
          (filter (\<lambda>p. \<exists>a \<in> set (or_empty (pat_admissions p)).
                     adm_status a = ''active''
                     \<or> (adm_status a = ''discharged''
                         \<and> (\<exists>d t. adm_discharge_date a = Some d \<and> getTime e d = Some t
                               \<and> cutoffTime e \<le> t)))
             (patients_table db))
      \<and> map pt_id (patients (snd (fetchPatients e True (db, st)))) =
          map pat_id (patients_table db)"
    by (simp add: default_view_ids in_window_iff)
  moreover have "\<forall>flag. patients_table (fst (fetchPatients e flag (db, st))) = patients_table db
          \<and> admissions_table (fst (fetchPatients e flag (db, st))) = admissions_table db
          \<and> filter is_write (issued (fst (fetchPatients e flag (db, st)))) =
              filter is_write (issued db)"
    by (simp add: fetchPatients_reads)
  ultimately show ?thesis by blast
qed

subsection \<open>Stay duration\<close>

lemma whole_days:
  fixes x :: int
  shows "x div 86400000 * 86400000 \<le> x \<and> x < (x div 86400000 + 1) * 86400000
         \<and> (6 \<le> x div 86400000 \<longleftrightarrow> 6 * 86400000 \<le> x)"
proof -
  define q r where "q = x div 86400000" and "r = x mod 86400000"
  have "x = q * 86400000 + r" and "0 \<le> r" and "r < 86400000"
    by (simp_all add: q_def r_def)
  then have "q * 86400000 \<le> x \<and> x < (q + 1) * 86400000 \<and> (6 \<le> q \<longleftrightarrow> 6 * 86400000 \<le> x)"
    by auto
  then show ?thesis by (simp add: q_def)
qed

text \<open>
  Claim C2. For an admission date that parses (to \<open>t\<close> milliseconds),
  \<open>calculateStayDuration\<close> returns a number \<open>n\<close> of whole days with
  \<open>n days \<le> now - t < (n + 1) days\<close>, the floor of the difference, and \<open>isLongStay\<close>
  holds exactly when \<open>n\<close> is at least \<open>LONG_STAY_THRESHOLD\<close>, which is 6, that is
  when at least six whole days have passed.
\<close>

theorem stay_duration_floor:
  assumes "getTime e d = Some t"
  shows "\<exists>n. calculateStayDuration e d = Some n
           \<and> n * 86400000 \<le> now_ms e - t \<and> now_ms e - t < (n + 1) * 86400000
           \<and> (isLongStay e d \<longleftrightarrow> LONG_STAY_THRESHOLD \<le> n)
           \<and> LONG_STAY_THRESHOLD = 6
           \<and> (isLongStay e d \<longleftrightarrow> 6 * 86400000 \<le> now_ms e - t)"
proof -
  have c: "calculateStayDuration e d = Some ((now_ms e - t) div 86400000)"
    using assms by (simp add: calculateStayDuration_def differenceInDays_def)
  show ?thesis
    using whole_days [of "now_ms e - t"]
    by (simp add: c isLongStay_def LONG_STAY_THRESHOLD_def)
qed

subsection \<open>The sample data\<close>

lemma sample_env_faults: "faults sample_env c = None"
  by (simp add: sample_env_def)

lemma sample_user: "currentUser sample_env = Some sample_doctor" "user_id sample_doctor = 7"
  "addNote_outcome sample_env = Appended"
  by (simp_all add: sample_env_def sample_doctor_def)

lemma sample_selected:
  "selectedPatient sample_store = Some (admissionPatient sample_admission)"
  "ap_isConsultation (admissionPatient sample_admission) \<noteq> Some True"
  "ap_id (admissionPatient sample_admission) = 1"
  "ap_patient_id (admissionPatient sample_admission) = 10"
  by (simp_all add: sample_store_def admissionPatient_def sample_admission_def)

lemma sample_consultation_entry:
  "ap_isConsultation (consultationPatient sample_consultation) = Some True"
  "ap_id (consultationPatient sample_consultation) = 1"
  "ap_consultation_id (consultationPatient sample_consultation) = Some 1"
  by (simp_all add: consultationPatient_def sample_consultation_def)

lemma sample_form_valid: "no_errors (validateForm sample_env sample_form)"
  by (simp add: validateForm_def no_errors_def Let_def sample_form_def sample_env_def
      sample_getTime_def date_le_def trim_def white_space_def)

lemma sample_active_admissions:
  "filter (\<lambda>a. adm_status a = ''active'') (admissions_table sample_db) = [sample_admission]"
  by (simp add: sample_db_def sample_admission_def sample_discharged_def)

lemma sample_active_consultations:
  "filter (\<lambda>c. con_status c = ''active'') (consultations_table sample_db) = [sample_consultation]"
  by (simp add: sample_db_def sample_consultation_def)

lemma sample_sorted:
  "sort_with (compare_admissions sample_env) [sample_admission, sample_discharged] =
     [sample_discharged, sample_admission]"
  by (simp add: sort_with_def compare_admissions_def sample_env_def sample_getTime_def
      sample_admission_def sample_discharged_def)

lemma sample_details:
  "pa_status (admission_details sample_discharged) = ''discharged''"
  "pa_status (admission_details sample_admission) = ''active''"
  "pa_admitting_doctor (admission_details sample_admission) = None"
  "pa_admitting_doctor (admission_details sample_discharged) = Some sample_doctor"
  "pa_department (admission_details sample_admission) = ''Neurology''"
  by (simp_all add: admission_details_def sample_admission_def sample_discharged_def first_def)

lemma sample_patient_admissions:
  "or_empty (pat_admissions sample_patient) = [sample_admission, sample_discharged]"
  by (simp add: sample_patient_def or_empty_def)



subsection \<open>The properties on the sample data\<close>

theorem processDischarge_preconditions_witness:
  "processDischarge (sample_env\<lparr>currentUser := None\<rparr>) (dischargeData sample_form)
     (sample_db, sample_store) =
   (Inl (Error ''No user logged in''), sample_db,
    sample_store\<lparr>loading := False, error := Some ''No user logged in''\<rparr>)"
  using processDischarge_preconditions [where st = sample_store
      and e = "sample_env\<lparr>currentUser := None\<rparr>" and data = "dischargeData sample_form"
      and db = sample_db]
  by (simp add: sample_store_def Let_def)

theorem roster_contents_witness:
  "activePatients (snd (fetchActivePatients sample_env (sample_db, sample_store))) =
     [admissionPatient sample_admission, consultationPatient sample_consultation]
   \<and> map ap_id (activePatients (snd (fetchActivePatients sample_env (sample_db, sample_store)))) =
       [adm_id sample_admission, con_id sample_consultation]
   \<and> admissionPatient sample_discharged
       \<notin> set (activePatients (snd (fetchActivePatients sample_env (sample_db, sample_store))))"
proof -
  note t = roster_contents [OF sample_env_faults sample_env_faults, of sample_db sample_store,
      unfolded Let_def]
  note entries = t [THEN conjunct1]
  note ids = t [THEN conjunct2, THEN conjunct2, THEN conjunct1]
  note gone = t [THEN conjunct2, THEN conjunct2, THEN conjunct2, THEN conjunct2,
      THEN conjunct2, THEN conjunct2, THEN conjunct1]
  have "sample_discharged \<in> set (admissions_table sample_db)"
    by (simp add: sample_db_def)
  moreover have "adm_status sample_discharged = ''discharged''"
    by (simp add: sample_discharged_def)
  ultimately have "admissionPatient sample_discharged
       \<notin> set (activePatients (snd (fetchActivePatients sample_env (sample_db, sample_store))))"
    using gone by blast
  moreover have "activePatients (snd (fetchActivePatients sample_env (sample_db, sample_store))) =
     [admissionPatient sample_admission, consultationPatient sample_consultation]"
    using entries unfolding sample_active_admissions sample_active_consultations by simp
  moreover have "map ap_id (activePatients (snd (fetchActivePatients sample_env
      (sample_db, sample_store)))) = [adm_id sample_admission, con_id sample_consultation]"
    using ids unfolding sample_active_admissions sample_active_consultations by simp
  ultimately show ?thesis by simp
qed

theorem reconcile_by_id_alone_witness:
  "ap_isConsultation (consultationPatient sample_consultation) = Some True
   \<and> selectedPatient (snd (fetchActivePatients sample_env
        (sample_db, sample_store\<lparr>selectedPatient := Some (consultationPatient sample_consultation)\<rparr>))) =
      Some (admissionPatient sample_admission)
   \<and> ap_isConsultation (admissionPatient sample_admission) = None"
  using reconcile_by_id_alone [where e = sample_env and db = sample_db
      and st = "sample_store\<lparr>selectedPatient := Some (consultationPatient sample_consultation)\<rparr>"
      and sel = "consultationPatient sample_consultation" and a = sample_admission]
  by (simp add: sample_env_def sample_db_def sample_admission_def sample_discharged_def
      sample_consultation_def consultationPatient_def)

theorem discharge_writes_admission_witness:
  "fst (processDischarge sample_env (dischargeData sample_form) (sample_db, sample_store)) = Inr ()
   \<and> filter is_write (issued (fst (snd
        (processDischarge sample_env (dischargeData sample_form) (sample_db, sample_store))))) =
      [UpdateAdmission 1
         \<lparr>au_status = ''discharged'', au_discharge_date = ''2024-01-10'',
          au_discharge_type = ''regular'', au_follow_up_required = True,
          au_follow_up_date = Some ''2024-01-20'', au_discharge_note = ''stable'',
          au_discharge_doctor_id = 7\<rparr>,
       InsertNote \<lparr>note_patient_id = 10, note_doctor_id = 7,
          note_type = ''Discharge Summary'', note_content = ''stable''\<rparr>]
   \<and> medical_notes (fst (snd
        (processDischarge sample_env (dischargeData sample_form) (sample_db, sample_store)))) =
      [\<lparr>note_patient_id = 10, note_doctor_id = 7,
          note_type = ''Discharge Summary'', note_content = ''stable''\<rparr>]"
proof -
  have form: "fd_discharge_date sample_form = ''2024-01-10''"
    "fd_discharge_type sample_form = ''regular''" "fd_follow_up_required sample_form = True"
    "fd_follow_up_date sample_form = ''2024-01-20''" "fd_discharge_note sample_form = ''stable''"
    by (simp_all add: sample_form_def)
  have db: "issued sample_db = []" "medical_notes sample_db = []"
    by (simp_all add: sample_db_def)
  note t = discharge_writes_admission [OF sample_selected(1,2) sample_user(1) sample_form_valid
      sample_env_faults sample_user(3), of sample_db]
  show ?thesis
    using t unfolding Let_def sample_selected(3,4) sample_user(2) form db by simp
qed

theorem discharge_failure_steps_witness:
  "fst (processDischarge
          (sample_env\<lparr>faults := (\<lambda>c. if c = WriteAdmission then Some (Other ''denied'') else None)\<rparr>)
          (dischargeData sample_form) (sample_db, sample_store)) = Inl (Other ''denied'')
   \<and> medical_notes (fst (snd (processDischarge
          (sample_env\<lparr>faults := (\<lambda>c. if c = WriteAdmission then Some (Other ''denied'') else None)\<rparr>)
          (dischargeData sample_form) (sample_db, sample_store)))) = medical_notes sample_db
   \<and> admissions_table (fst (snd (processDischarge
          (sample_env\<lparr>faults := (\<lambda>c. if c = WriteAdmission then Some (Other ''denied'') else None)\<rparr>)
          (dischargeData sample_form) (sample_db, sample_store)))) = admissions_table sample_db
   \<and> fst (processDischarge (sample_env\<lparr>addNote_outcome := Rejected (Error ''note failed'')\<rparr>)
          (dischargeData sample_form) (sample_db, sample_store)) = Inl (Error ''note failed'')
   \<and> map adm_status (admissions_table (fst (snd (processDischarge
          (sample_env\<lparr>addNote_outcome := Rejected (Error ''note failed'')\<rparr>)
          (dischargeData sample_form) (sample_db, sample_store))))) =
       [''discharged'', ''discharged'']
   \<and> medical_notes (fst (snd (processDischarge
          (sample_env\<lparr>addNote_outcome := Rejected (Error ''note failed'')\<rparr>)
          (dischargeData sample_form) (sample_db, sample_store)))) = medical_notes sample_db"
proof -
  let ?e1 = "sample_env\<lparr>faults := (\<lambda>c. if c = WriteAdmission then Some (Other ''denied'') else None)\<rparr>"
  let ?e2 = "sample_env\<lparr>addNote_outcome := Rejected (Error ''note failed'')\<rparr>"
  have u1: "currentUser ?e1 = Some sample_doctor" and u2: "currentUser ?e2 = Some sample_doctor"
    by (simp_all add: sample_env_def)
  have f1: "faults ?e1 WriteAdmission = Some (Other ''denied'')"
    and f2: "faults ?e2 WriteAdmission = None"
    and n2: "addNote_outcome ?e2 = Rejected (Error ''note failed'')"
    by (simp_all add: sample_env_def)
  have st: "map (\<lambda>r. if adm_id r = (1::int) then ''discharged'' else adm_status r)
              (admissions_table sample_db) = [''discharged'', ''discharged'']"
    by (simp add: sample_db_def sample_admission_def sample_discharged_def)
  note t1 = discharge_failure_steps [OF sample_selected(1) u1, of "dischargeData sample_form" sample_db]
  note t2 = discharge_failure_steps [OF sample_selected(1) u2, of "dischargeData sample_form" sample_db]
  have a: "fst (processDischarge ?e1 (dischargeData sample_form) (sample_db, sample_store)) =
             Inl (Other ''denied'')
           \<and> medical_notes (fst (snd (processDischarge ?e1 (dischargeData sample_form)
               (sample_db, sample_store)))) = medical_notes sample_db
           \<and> admissions_table (fst (snd (processDischarge ?e1 (dischargeData sample_form)
               (sample_db, sample_store)))) = admissions_table sample_db"
    using t1 f1 sample_selected(2) unfolding Let_def by simp
  have b: "fst (processDischarge ?e2 (dischargeData sample_form) (sample_db, sample_store)) =
             Inl (Error ''note failed'')
           \<and> map adm_status (admissions_table (fst (snd (processDischarge ?e2
               (dischargeData sample_form) (sample_db, sample_store))))) =
               [''discharged'', ''discharged'']
           \<and> medical_notes (fst (snd (processDischarge ?e2 (dischargeData sample_form)
               (sample_db, sample_store)))) = medical_notes sample_db"
    using t2 f2 n2 sample_selected(2,3) st unfolding Let_def by simp
  from a b show ?thesis by simp
qed

theorem discharge_refetch_then_clear_witness:
  "selectedPatient (snd (snd (processDischarge sample_env (dischargeData sample_form)
      (sample_db, sample_store\<lparr>selectedPatient := Some (consultationPatient sample_consultation)\<rparr>)))) = None
   \<and> map ap_id (activePatients (snd (snd (processDischarge sample_env (dischargeData sample_form)
      (sample_db, sample_store\<lparr>selectedPatient := Some (consultationPatient sample_consultation)\<rparr>))))) =
      [ap_id (consultationPatient sample_consultation)]"
proof -
  let ?st = "sample_store\<lparr>selectedPatient := Some (consultationPatient sample_consultation)\<rparr>"
  let ?r = "processDischarge sample_env (dischargeData sample_form) (sample_db, ?st)"
  have sel: "selectedPatient ?st = Some (consultationPatient sample_consultation)"
    by simp
  have w: "faults sample_env (if ap_isConsultation (consultationPatient sample_consultation) = Some True
             then WriteConsultation else WriteAdmission) = None"
    by (rule sample_env_faults)
  note t = discharge_refetch_then_clear [OF sel sample_user(1) w sample_user(3),
      of "dischargeData sample_form" sample_db]
  have cleared: "selectedPatient (snd (snd ?r)) = None"
    and roster: "activePatients (snd (snd ?r)) =
       allPatients (Some (active_admissions (fst (snd ?r)))) (Some (active_consultations (fst (snd ?r))))"
    using t sample_env_faults unfolding Let_def by simp_all
  have run: "fst (snd ?r) = fst (fetchActivePatients sample_env
       ((issue (InsertNote \<lparr>note_patient_id = ap_patient_id (consultationPatient sample_consultation),
            note_doctor_id = user_id sample_doctor, note_type = ''Consultation Note'',
            note_content = discharge_note (dischargeData sample_form)\<rparr>)
          ((issue (UpdateConsultation (Some 1)
              \<lparr>cu_status = ''completed'',
               cu_completion_note = discharge_note (dischargeData sample_form),
               cu_completed_by = user_id sample_doctor, cu_completed_at = now_iso sample_env\<rparr>)
              sample_db)
           \<lparr>consultations_table := apply_consultation_update (Some 1)
              \<lparr>cu_status = ''completed'',
               cu_completion_note = discharge_note (dischargeData sample_form),
               cu_completed_by = user_id sample_doctor, cu_completed_at = now_iso sample_env\<rparr>
              (consultations_table sample_db)\<rparr>))
        \<lparr>medical_notes := medical_notes sample_db @
           [\<lparr>note_patient_id = ap_patient_id (consultationPatient sample_consultation),
            note_doctor_id = user_id sample_doctor, note_type = ''Consultation Note'',
            note_content = discharge_note (dischargeData sample_form)\<rparr>]\<rparr>,
        ?st\<lparr>loading := True, error := None\<rparr>))"
    unfolding processDischarge_run [OF sel sample_user(1)]
      complete_consultation_written [OF sample_env_faults] addNote_appended [OF sample_user(3)]
    by (simp add: sample_consultation_entry tables_issue)
  have adm: "active_admissions (fst (snd ?r)) = [sample_admission]"
    unfolding run active_admissions_def fetchActivePatients_tables
    by (simp add: tables_issue sample_db_def sample_admission_def sample_discharged_def)
  have con: "active_consultations (fst (snd ?r)) = []"
    unfolding run active_consultations_def fetchActivePatients_tables
    by (simp add: tables_issue sample_db_def sample_consultation_def
        apply_consultation_update_def)
  have "ap_id (admissionPatient sample_admission) = 1"
    by (simp add: admissionPatient_def sample_admission_def)
  then show ?thesis
    unfolding roster adm con using cleared
    by (simp add: allPatients_def or_empty_def sample_consultation_entry)
qed

text \<open>
  The claim as stated fails on the sample patient: its active admission has no admitting
  doctor, and the derived doctor name is that of the more recent, discharged admission.
\<close>

theorem patient_doctor_name_counterexample:
  "find (\<lambda>a. pa_status a = ''active'')
     (the (pt_admissions (patientWithDetails sample_env sample_patient))) =
     Some (admission_details sample_admission)
   \<and> doctor_name_of (Some (admission_details sample_admission)) = None
   \<and> pt_doctor_name (patientWithDetails sample_env sample_patient) = Some ''Dr Amal''"
  by (simp add: patientWithDetails_def Let_def sample_patient_admissions sample_sorted
      sample_details doctor_name_of_def first_def or_else_def sample_doctor_def)

theorem patient_derived_fields_witness:
  "pt_admissions (patientWithDetails sample_env sample_patient) =
     Some [admission_details sample_discharged, admission_details sample_admission]
   \<and> pt_department (patientWithDetails sample_env sample_patient) = Some ''Neurology''
   \<and> pt_doctor_name (patientWithDetails sample_env sample_patient) = Some (user_name sample_doctor)"
proof -
  have ne: "or_empty (pat_admissions sample_patient) \<noteq> []"
    by (simp add: sample_patient_admissions)
  have valid: "\<forall>a \<in> set (or_empty (pat_admissions sample_patient)).
      getTime sample_env (adm_admission_date a) \<noteq> None"
    by (simp add: sample_patient_admissions sample_env_def sample_getTime_def
        sample_admission_def sample_discharged_def)
  have adms: "pt_admissions (patientWithDetails sample_env sample_patient) =
     Some [admission_details sample_discharged, admission_details sample_admission]"
    by (simp add: patientWithDetails_def Let_def sample_patient_admissions sample_sorted)
  from patient_derived_fields [OF ne valid] adms show ?thesis
    by (auto simp: sample_details)
qed



lemma sample_cutoffs:
  "cutoffTime sample_env = 1704780000000"
  "cutoffTime sample_clock_change = 1704776400000"
  "now_ms sample_env = 1704844800000"
  "now_ms sample_clock_change = 1704844800000"
  by (simp_all add: cutoffTime_def UTC_def LocalTime_def sample_clock_change_def sample_env_def)

lemma sample_windows:
  "(\<exists>a \<in> set (or_empty (pat_admissions sample_patient)). in_window e c a)"
  "(\<exists>a \<in> set (or_empty (pat_admissions sample_long_gone)).
      in_window sample_env (cutoffTime sample_env) a) = False"
  "(\<exists>a \<in> set (or_empty (pat_admissions sample_future)).
      in_window sample_env (cutoffTime sample_env) a)"
  "(\<exists>a \<in> set (or_empty (pat_admissions sample_early)).
      in_window sample_env (cutoffTime sample_env) a) = False"
  "(\<exists>a \<in> set (or_empty (pat_admissions sample_early)).
      in_window sample_clock_change (cutoffTime sample_clock_change) a)"
  unfolding sample_cutoffs
  by (simp_all add: in_window_def or_empty_def sample_patient_def sample_long_gone_def
      sample_future_def sample_early_def sample_admission_def sample_discharged_def
      sample_env_def sample_clock_change_def sample_getTime_def)

lemma sample_patient_ids:
  "pat_id sample_patient = 10" "pat_id sample_long_gone = 30"
  "pat_id sample_future = 20" "pat_id sample_early = 40"
  by (simp_all add: sample_patient_def sample_long_gone_def sample_future_def sample_early_def)

lemma sample_window_ids:
  "map pt_id (patients (snd (fetchPatients sample_env False
      (sample_window_db, sample_patient_store)))) = [10, 20]"
  "map pt_id (patients (snd (fetchPatients sample_env True
      (sample_window_db, sample_patient_store)))) = [10, 30, 20, 40]"
  "map pt_id (patients (snd (fetchPatients sample_clock_change False
      (sample_window_db\<lparr>patients_table := [sample_early]\<rparr>, sample_patient_store)))) = [40]"
proof -
  have f: "faults sample_clock_change QueryPatients = None"
    by (simp add: sample_clock_change_def sample_env_def)
  note ids = sample_patient_ids
  show "map pt_id (patients (snd (fetchPatients sample_env False
      (sample_window_db, sample_patient_store)))) = [10, 20]"
    unfolding default_view_ids(1) [OF sample_env_faults]
    by (simp add: sample_window_db_def sample_windows ids)
  show "map pt_id (patients (snd (fetchPatients sample_env True
      (sample_window_db, sample_patient_store)))) = [10, 30, 20, 40]"
    unfolding default_view_ids(2) [OF sample_env_faults]
    by (simp add: sample_window_db_def ids)
  show "map pt_id (patients (snd (fetchPatients sample_clock_change False
      (sample_window_db\<lparr>patients_table := [sample_early]\<rparr>, sample_patient_store)))) = [40]"
    unfolding default_view_ids(1) [OF f]
    by (simp add: sample_windows ids)
qed

lemma sample_discharges:
  "map (\<lambda>a. (adm_status a, Option.bind (adm_discharge_date a) (getTime sample_env)))
     (or_empty (pat_admissions sample_future)) = [(''discharged'', Some 1705708800000)]"
  "map (\<lambda>a. (adm_status a, Option.bind (adm_discharge_date a) (getTime sample_clock_change)))
     (or_empty (pat_admissions sample_early)) = [(''discharged'', Some 1704778200000)]"
  by (simp_all add: or_empty_def sample_future_def sample_early_def sample_discharged_def
      sample_admission_def sample_env_def sample_clock_change_def sample_getTime_def)

text \<open>
  The claim as stated fails twice. Patient 20 has a single admission, discharged ten days
  after the clock, which is not within the 18 hours before the clock, and is in the
  default view. Where the clocks went back within the window, patient 40, discharged
  eighteen and a half hours before the clock, is in the default view.
\<close>

theorem default_view_counterexample:
  "map pt_id (patients (snd (fetchPatients sample_env False
      (sample_window_db, sample_patient_store)))) = [10, 20]
   \<and> pat_id sample_future = 20
   \<and> map (\<lambda>a. (adm_status a, Option.bind (adm_discharge_date a) (getTime sample_env)))
       (or_empty (pat_admissions sample_future)) = [(''discharged'', Some 1705708800000)]
   \<and> now_ms sample_env = 1704844800000
   \<and> map pt_id (patients (snd (fetchPatients sample_clock_change False
       (sample_window_db\<lparr>patients_table := [sample_early]\<rparr>, sample_patient_store)))) = [40]
   \<and> map (\<lambda>a. (adm_status a, Option.bind (adm_discharge_date a) (getTime sample_clock_change)))
       (or_empty (pat_admissions sample_early)) = [(''discharged'', Some 1704778200000)]
   \<and> now_ms sample_clock_change - 18 * 3600000 = 1704780000000"
  by (simp add: sample_window_ids sample_discharges sample_cutoffs sample_patient_ids)

theorem default_view_window_witness:
  "map pt_id (patients (snd (fetchPatients sample_env False
      (sample_window_db, sample_patient_store)))) = [10, 20]
   \<and> map pt_id (patients (snd (fetchPatients sample_env True
      (sample_window_db, sample_patient_store)))) = [10, 30, 20, 40]
   \<and> cutoffTime sample_env = now_ms sample_env - 18 * 3600000
   \<and> patients_table (fst (fetchPatients sample_env False (sample_window_db, sample_patient_store))) =
       patients_table sample_window_db"
proof -
  note t = default_view_window [of sample_env sample_window_db sample_patient_store]
  have steady: "\<forall>t isUTC. localTZA sample_env t isUTC = localTZA sample_env 0 True"
    by (simp add: sample_env_def)
  have "cutoffTime sample_env = now_ms sample_env - 18 * 3600000"
    using t steady by blast
  moreover have "patients_table (fst (fetchPatients sample_env False
      (sample_window_db, sample_patient_store))) = patients_table sample_window_db"
    using t by blast
  ultimately show ?thesis
    by (simp add: sample_window_ids)
qed

theorem stay_duration_floor_witness:
  "calculateStayDuration sample_env ''2024-01-01'' = Some 9
   \<and> isLongStay sample_env ''2024-01-01''
   \<and> calculateStayDuration sample_env ''2024-01-05'' = Some 5
   \<and> \<not> isLongStay sample_env ''2024-01-05''"
proof -
  have g: "getTime sample_env ''2024-01-01'' = Some 1704067200000"
    "getTime sample_env ''2024-01-05'' = Some 1704412800000"
    "now_ms sample_env = 1704844800000"
    by (simp_all add: sample_env_def sample_getTime_def)
  from stay_duration_floor [OF g(1)] stay_duration_floor [OF g(2)] show ?thesis
    unfolding g(3) by auto
qed

end
